theory Spec2Isabelle
  imports Complex_Main
begin

section \<open>JavaScript values\<close>

text \<open>
  Request bodies, the decoded identity header and the payloads of the external
  services are untyped JSON. They are modelled by one datatype of JavaScript
  values. \<open>Undefined\<close> is the value of a missing property, \<open>Date\<close> a
  \<^verbatim>\<open>Date\<close> object holding milliseconds since the epoch. Numbers are the
  finite ones, read as rationals.
\<close>

datatype jsval =
    Undefined
  | Null
  | Bool bool
  | Num rat
  | Str string
  | Date nat
  | Arr "jsval list"
  | Obj "(string \<times> jsval) list"

text \<open>Truthiness, as used by \<^verbatim>\<open>if (x)\<close>, \<^verbatim>\<open>!x\<close>, \<^verbatim>\<open>x || y\<close> and \<^verbatim>\<open>x ? a : b\<close>.\<close>

fun truthy :: "jsval \<Rightarrow> bool" where
  "truthy Undefined = False"
| "truthy Null = False"
| "truthy (Bool b) = b"
| "truthy (Num r) = (r \<noteq> 0)"
| "truthy (Str s) = (s \<noteq> [])"
| "truthy (Date t) = True"
| "truthy (Arr xs) = True"
| "truthy (Obj fs) = True"

text \<open>Reading a property of \<^verbatim>\<open>null\<close> or \<^verbatim>\<open>undefined\<close> throws a TypeError.\<close>

fun nullish :: "jsval \<Rightarrow> bool" where
  "nullish Undefined = True"
| "nullish Null = True"
| "nullish v = False"

text \<open>
  \<open>getprop v k\<close> is \<^verbatim>\<open>v.k\<close> for a value \<open>v\<close> that is neither \<^verbatim>\<open>null\<close> nor
  \<^verbatim>\<open>undefined\<close>, and for the property names the source reads (none of them
  an index, none of them inherited from a prototype). An object parsed from JSON
  has each key once.
\<close>

fun getprop :: "jsval \<Rightarrow> string \<Rightarrow> jsval" where
  "getprop (Obj fs) k = (case map_of fs k of None \<Rightarrow> Undefined | Some v \<Rightarrow> v)"
| "getprop (Arr xs) k = (if k = ''length'' then Num (of_nat (length xs)) else Undefined)"
| "getprop (Str s) k = (if k = ''length'' then Num (of_nat (length s)) else Undefined)"
| "getprop v k = Undefined"

text \<open>\<open>elem0 v\<close> is \<^verbatim>\<open>v[0]\<close>, again for a value that is not nullish.\<close>

fun elem0 :: "jsval \<Rightarrow> jsval" where
  "elem0 (Arr xs) = (case xs of [] \<Rightarrow> Undefined | x # _ \<Rightarrow> x)"
| "elem0 (Str s) = (case s of [] \<Rightarrow> Undefined | c # _ \<Rightarrow> Str [c])"
| "elem0 (Obj fs) = (case map_of fs ''0'' of None \<Rightarrow> Undefined | Some v \<Rightarrow> v)"
| "elem0 v = Undefined"

text \<open>
  \<open>to_number\<close> is the conversion that \<^verbatim>\<open>x > 0\<close> applies to \<open>x\<close>; \<open>None\<close> is NaN.
  The conversion of a string to a number is the language's own and is the
  parameter \<open>strnum\<close>. An array converts through its string: the empty array
  through the empty string (0), a one-element array through the string of its
  element, a longer one through a string with a comma, which is no number.
\<close>

fun to_number :: "(string \<Rightarrow> rat option) \<Rightarrow> jsval \<Rightarrow> rat option" where
  "to_number strnum Undefined = None"
| "to_number strnum Null = Some 0"
| "to_number strnum (Bool b) = Some (if b then 1 else 0)"
| "to_number strnum (Num r) = Some r"
| "to_number strnum (Str s) = strnum s"
| "to_number strnum (Date t) = Some (of_nat t)"
| "to_number strnum (Arr []) = Some 0"
| "to_number strnum (Arr [Undefined]) = Some 0"
| "to_number strnum (Arr [Null]) = Some 0"
| "to_number strnum (Arr [Num r]) = Some r"
| "to_number strnum (Arr [Str s]) = strnum s"
| "to_number strnum (Arr [Arr ys]) = to_number strnum (Arr ys)"
| "to_number strnum (Arr ys) = None"
| "to_number strnum (Obj fs) = None"

definition gt_zero :: "(string \<Rightarrow> rat option) \<Rightarrow> jsval \<Rightarrow> bool" where
  "gt_zero strnum v = (case to_number strnum v of None \<Rightarrow> False | Some r \<Rightarrow> 0 < r)"

section \<open>Errors and responses\<close>

text \<open>
  A thrown value: an \<^verbatim>\<open>Error\<close> with its \<^verbatim>\<open>message\<close>, and the
  \<^verbatim>\<open>errorCode\<close> that the errors of the token library carry (empty when the
  error has none). The text of a TypeError raised by the engine is the engine's;
  it is kept as one fixed string.
\<close>

datatype js_error = Error (errorCode: string) (message: string)

definition type_error :: js_error where
  "type_error = Error [] ''TypeError''"

text \<open>What \<^verbatim>\<open>res.status(c).json(b)\<close> sends.\<close>

datatype response = Response (code: nat) (json: jsval)

section \<open>The request store\<close>

text \<open>
  One tracked request. Both services store \<^verbatim>\<open>type\<close>, \<^verbatim>\<open>status\<close>,
  \<^verbatim>\<open>data\<close> and \<^verbatim>\<open>created\<close>; the callback adds \<^verbatim>\<open>updated\<close>. The issuing
  service adds \<^verbatim>\<open>userData\<close> and \<^verbatim>\<open>pin\<close>, the verifying service
  \<^verbatim>\<open>options\<close> and, from the callback, \<^verbatim>\<open>verifiedCredential\<close> and
  \<^verbatim>\<open>faceCheckResult\<close>. A field that was never assigned is \<open>None\<close>.
\<close>

record tracked =
  type :: string
  status :: jsval
  data :: jsval
  created :: nat
  updated :: "nat option"

record issuance = tracked +
  userData :: jsval
  pin :: "string option"

record verification = tracked +
  options :: jsval
  verifiedCredential :: "jsval option"
  faceCheckResult :: "jsval option"

text \<open>
  \<^verbatim>\<open>requestStore\<close> is a \<^verbatim>\<open>Map\<close> whose keys are the generated identifiers,
  all of them strings. \<^verbatim>\<open>requestStore.get(k)\<close> with a key that is not a
  string finds nothing.
\<close>

type_synonym 'r requestStore = "string \<rightharpoonup> 'r"

fun store_get :: "'r requestStore \<Rightarrow> jsval \<Rightarrow> (string \<times> 'r) option" where
  "store_get store (Str k) = (case store k of None \<Rightarrow> None | Some r \<Rightarrow> Some (k, r))"
| "store_get store v = None"

section \<open>Status and callback endpoints\<close>

text \<open>
  \<^verbatim>\<open>GET /api/request-status/:requestId\<close> of the issuing service. Every
  handler takes the store and returns it with its outcome; this one only reads.
\<close>

definition not_found :: response where
  "not_found = Response 404 (Obj [(''success'', Bool False), (''error'', Str ''Request not found'')])"

definition issue_request_status ::
  "issuance requestStore \<Rightarrow> string \<Rightarrow> issuance requestStore \<times> response" where
  "issue_request_status store requestId =
     (case store requestId of
        None \<Rightarrow> (store, not_found)
      | Some request \<Rightarrow>
          (store, Response 200 (Obj [
            (''success'', Bool True),
            (''requestId'', Str requestId),
            (''status'', status request),
            (''type'', Str (type request)),
            (''created'', Date (created request)),
            (''pin'', (case pin request of None \<Rightarrow> Null | Some p \<Rightarrow> Str p))])))"

text \<open>
  \<^verbatim>\<open>GET /api/request-status/:requestId\<close> of the verifying service;
  \<^verbatim>\<open>request.verifiedCredential || null\<close> of an object is the object.
\<close>

definition or_null :: "jsval option \<Rightarrow> jsval" where
  "or_null v = (case v of None \<Rightarrow> Null | Some x \<Rightarrow> (if truthy x then x else Null))"

definition verify_request_status ::
  "verification requestStore \<Rightarrow> string \<Rightarrow> verification requestStore \<times> response" where
  "verify_request_status store requestId =
     (case store requestId of
        None \<Rightarrow> (store, not_found)
      | Some request \<Rightarrow>
          (store, Response 200 (Obj [
            (''success'', Bool True),
            (''requestId'', Str requestId),
            (''status'', status request),
            (''type'', Str (type request)),
            (''created'', Date (created request)),
            (''verifiedCredential'', or_null (verifiedCredential request)),
            (''faceCheckResult'', or_null (faceCheckResult request))])))"

text \<open>
  \<^verbatim>\<open>POST /api/request-callback\<close> of the issuing service, at time \<open>now\<close>. The
  result is the store afterwards and what the handler did: a response, or an
  exception that leaves the handler (\<^verbatim>\<open>req.body.state\<close> on a body that is
  \<^verbatim>\<open>undefined\<close>).
\<close>

definition request_callback ::
  "nat \<Rightarrow> issuance requestStore \<Rightarrow> jsval \<Rightarrow> issuance requestStore \<times> (js_error + response)" where
  "request_callback now store reqbody =
     (if nullish reqbody then (store, Inl type_error)
      else
        let requestId = getprop reqbody ''state'';
            code = getprop reqbody ''code''
        in (case store_get store requestId of
              None \<Rightarrow> (store, Inr (Response 200 (Obj [(''message'', Str ''Callback received'')])))
            | Some (k, request) \<Rightarrow>
                (store(k \<mapsto> request\<lparr>status := code, updated := Some now\<rparr>),
                 Inr (Response 200 (Obj [(''message'', Str ''Callback received'')])))))"

text \<open>
  \<^verbatim>\<open>POST /api/verification-callback\<close> of the verifying service. The stored
  object is changed in place, so the new status and time are in the store also
  when \<^verbatim>\<open>credentialData.type\<close> throws on a first entry that is
  \<^verbatim>\<open>null\<close> or \<^verbatim>\<open>undefined\<close>.
\<close>

definition verification_callback ::
  "(string \<Rightarrow> rat option) \<Rightarrow> nat \<Rightarrow> verification requestStore \<Rightarrow> jsval
     \<Rightarrow> verification requestStore \<times> (js_error + response)" where
  "verification_callback strnum now store reqbody =
     (if nullish reqbody then (store, Inl type_error)
      else
        let requestId = getprop reqbody ''state'';
            code = getprop reqbody ''code'';
            received = Response 200 (Obj [(''message'', Str ''Verification callback received'')])
        in (case store_get store requestId of
              None \<Rightarrow> (store, Inr received)
            | Some (k, request0) \<Rightarrow>
                let request = request0\<lparr>status := code, updated := Some now\<rparr>;
                    vcd = getprop reqbody ''verifiedCredentialsData''
                in if code = Str ''presentation_verified''
                      \<and> truthy vcd \<and> gt_zero strnum (getprop vcd ''length'')
                   then
                     let credentialData = elem0 vcd in
                     if nullish credentialData then (store(k \<mapsto> request), Inl type_error)
                     else
                       let request1 = request\<lparr>verifiedCredential := Some (Obj [
                              (''type'', getprop credentialData ''type''),
                              (''issuer'', getprop credentialData ''issuer''),
                              (''claims'', getprop credentialData ''claims''),
                              (''credentialSubject'', getprop credentialData ''credentialSubject'')])\<rparr>;
                           faceCheck = getprop credentialData ''faceCheck'';
                           request2 =
                             (if truthy faceCheck
                              then request1\<lparr>faceCheckResult := Some (Obj [
                                     (''faceCheckPassed'', getprop faceCheck ''faceCheckPassed''),
                                     (''confidence'', getprop faceCheck ''confidence'')])\<rparr>
                              else request1)
                       in (store(k \<mapsto> request2), Inr received)
                   else (store(k \<mapsto> request), Inr received)))"

section \<open>External services\<close>

text \<open>
  The services behind the network are not part of the program. Each awaited call
  is an oracle of the record \<open>services\<close> that gives the value the promise
  resolves to (\<open>Inr\<close>) or the error it rejects with (\<open>Inl\<close>), and each call
  made is written to a log, in order. \<open>uuidv4\<close> is the identifier generated
  for the request, \<open>now\<close> the clock read by \<^verbatim>\<open>new Date()\<close>. \<open>random\<close>
  is the outcome of \<^verbatim>\<open>Math.random()\<close>, a double \<open>r\<close> with \<open>0 \<le> r < 1\<close>,
  given by a significand and a binary exponent: \<open>(m, k)\<close> is \<open>r = m / 2 ^ k\<close>,
  with \<open>m < 2 ^ 53\<close> and \<open>m < 2 ^ k\<close>.
\<close>

text \<open>
  What the directory returns for a photo: a falsy value, a \<^verbatim>\<open>Buffer\<close>, an
  object with an \<^verbatim>\<open>arrayBuffer\<close> method (which resolves or rejects), an
  \<^verbatim>\<open>ArrayBuffer\<close>, or something else, on which \<^verbatim>\<open>Buffer.from\<close> returns
  or throws.
\<close>

datatype photo =
    PFalsy
  | PBuffer "nat list"
  | PBlob "js_error + nat list"
  | PArrayBuffer "nat list"
  | POther "js_error + nat list"

text \<open>
  The outbound calls. A posted document is kept by what varies in it: the bearer
  token, the callback state, the pin (value and length) and the user data its
  claims are read from, or whether a face check is requested. Its other members
  are configuration constants.
\<close>

datatype ext_call =
    AcquireToken string
  | GraphUser jsval
  | GraphPhotoSize jsval string
  | GraphPhoto jsval
  | PostIssuance jsval string "(string \<times> int) option" jsval
  | PostPresentation jsval string bool

record services =
  acquireTokenByClientCredential :: "string \<Rightarrow> js_error + jsval"
  initWithMiddleware :: "js_error option"
  graph_user :: "jsval \<Rightarrow> js_error + jsval"
  graph_photo :: "ext_call \<Rightarrow> js_error + photo"
  axios_post :: "ext_call \<Rightarrow> js_error + jsval"
  uuidv4 :: string
  now :: nat
  random :: "nat \<times> nat"

text \<open>An asynchronous function: the calls it made, and its value or its error.\<close>

type_synonym 'a comp = "ext_call list \<times> (js_error + 'a)"

text \<open>\<^verbatim>\<open>a || b\<close> on values.\<close>

definition or_js :: "jsval \<Rightarrow> jsval \<Rightarrow> jsval" where
  "or_js a b = (if truthy a then a else b)"

definition getAccessToken :: "services \<Rightarrow> jsval comp" where
  "getAccessToken sv =
     (let scope = ''3db474b9-6a0c-4840-96ac-1fceb342124f/.default'';
          failed = (\<lambda>e. Error [] (''Failed to acquire access token: ''
                      @ (if errorCode e \<noteq> [] then errorCode e else message e)))
      in case acquireTokenByClientCredential sv scope of
           Inl e \<Rightarrow> ([AcquireToken scope], Inl (failed e))
         | Inr response \<Rightarrow>
             if nullish response then ([AcquireToken scope], Inl (failed type_error))
             else ([AcquireToken scope], Inr (getprop response ''accessToken'')))"

text \<open>
  The \<^verbatim>\<open>accessTokenProvider\<close> that \<^verbatim>\<open>getGraphClient\<close> gives to the
  Graph client: one token acquisition for the Graph scope, each time it is
  awaited.
\<close>

definition accessTokenProvider :: "services \<Rightarrow> jsval comp" where
  "accessTokenProvider sv =
     (let scope = ''https://graph.microsoft.com/.default''
      in case acquireTokenByClientCredential sv scope of
           Inl e \<Rightarrow> ([AcquireToken scope], Inl e)
         | Inr response \<Rightarrow>
             if nullish response then ([AcquireToken scope], Inl type_error)
             else ([AcquireToken scope], Inr (getprop response ''accessToken'')))"

text \<open>
  \<^verbatim>\<open>getGraphClient\<close>: the client it returns is kept as the provider it was
  built with; \<open>initWithMiddleware\<close> is the error of
  \<^verbatim>\<open>Client.initWithMiddleware\<close>, if it throws.
\<close>

definition getGraphClient :: "services \<Rightarrow> (jsval comp) comp" where
  "getGraphClient sv =
     (case initWithMiddleware sv of
        Some e \<Rightarrow> ([], Inl (Error [] (''Failed to create Graph client: '' @ message e)))
      | None \<Rightarrow> ([], Inr (accessTokenProvider sv)))"

text \<open>
  \<^verbatim>\<open>graphClient.api(path).get()\<close>: the client awaits its provider for every
  request, and sends the request when it has the token; \<open>reply\<close> is what the
  directory answers. Without a token the request fails with the provider's
  error.
\<close>

definition graph_get :: "jsval comp \<Rightarrow> ext_call \<Rightarrow> js_error + 'a \<Rightarrow> 'a comp" where
  "graph_get graphClient request reply =
     (case graphClient of
        (l, Inl e) \<Rightarrow> (l, Inl e)
      | (l, Inr accessToken) \<Rightarrow> (l @ [request], reply))"

definition getUserProfile :: "services \<Rightarrow> jsval \<Rightarrow> jsval comp" where
  "getUserProfile sv userPrincipalName =
     (let failed = (\<lambda>e. Error [] (''Failed to fetch user profile: '' @ message e))
      in case getGraphClient sv of
           (l, Inl e) \<Rightarrow> (l, Inl (failed e))
         | (l, Inr graphClient) \<Rightarrow>
             (case graph_get graphClient (GraphUser userPrincipalName)
                     (graph_user sv userPrincipalName) of
                (l', Inl e) \<Rightarrow> (l @ l', Inl (failed e))
              | (l', Inr user) \<Rightarrow>
                  if nullish user
                  then (l @ l', Inl (failed type_error))
                  else (l @ l', Inr (Obj [
                    (''displayName'', getprop user ''displayName''),
                    (''givenName'', getprop user ''givenName''),
                    (''surname'', getprop user ''surname''),
                    (''mail'', or_js (getprop user ''mail'') (getprop user ''userPrincipalName'')),
                    (''jobTitle'', or_js (getprop user ''jobTitle'') (Str ''Employee'')),
                    (''preferredLanguage'', or_js (getprop user ''preferredLanguage'') (Str ''en-US'')),
                    (''userPrincipalName'', getprop user ''userPrincipalName''),
                    (''photo'', Null)]))))"

subsection \<open>The user photo\<close>

definition photoSizes :: "string list" where
  "photoSizes = [''240x240'', ''120x120'', ''96x96'', ''64x64'', ''48x48'']"

text \<open>
  The loop over the sizes: a request that fails goes on to the next size, the
  first one that resolves ends the loop with its value. \<open>None\<close> is a loop that
  ended with \<^verbatim>\<open>photo\<close> still \<^verbatim>\<open>null\<close>.
\<close>

fun try_sizes ::
  "jsval comp \<Rightarrow> services \<Rightarrow> jsval \<Rightarrow> string list \<Rightarrow> ext_call list \<times> photo option" where
  "try_sizes graphClient sv upn [] = ([], None)"
| "try_sizes graphClient sv upn (sz # sizes) =
     (case graph_get graphClient (GraphPhotoSize upn sz) (graph_photo sv (GraphPhotoSize upn sz)) of
        (l, Inr photo) \<Rightarrow> (l, Some photo)
      | (l, Inl sizeError) \<Rightarrow>
          (case try_sizes graphClient sv upn sizes of (l', r) \<Rightarrow> (l @ l', r)))"

definition to_buffer :: "photo \<Rightarrow> js_error + nat list" where
  "to_buffer photo =
     (case photo of
        PFalsy \<Rightarrow> Inl (Error [] ''No photo data received'')
      | PBuffer b \<Rightarrow> Inr b
      | PBlob r \<Rightarrow> r
      | PArrayBuffer b \<Rightarrow> Inr b
      | POther r \<Rightarrow> r)"

text \<open>
  \<open>encode\<close> is \<^verbatim>\<open>encodeURIComponent(buffer.toString('base64'))\<close>, a parameter.
  The body of the \<^verbatim>\<open>try\<close> block, then the function with its \<^verbatim>\<open>catch\<close>,
  which returns \<^verbatim>\<open>null\<close> (\<open>None\<close>).
\<close>

definition getUserPhoto_try :: "(nat list \<Rightarrow> string) \<Rightarrow> services \<Rightarrow> jsval \<Rightarrow> string comp" where
  "getUserPhoto_try encode sv upn =
     (case getGraphClient sv of
        (l0, Inl e) \<Rightarrow> (l0, Inl e)
      | (l0, Inr graphClient) \<Rightarrow>
          (case try_sizes graphClient sv upn photoSizes of
             (l, r) \<Rightarrow>
               let photo = (case r of None \<Rightarrow> PFalsy | Some p \<Rightarrow> p) in
               if photo = PFalsy
               then (case graph_get graphClient (GraphPhoto upn) (graph_photo sv (GraphPhoto upn)) of
                       (l', Inl e) \<Rightarrow> (l0 @ l @ l', Inl e)
                     | (l', Inr photo') \<Rightarrow>
                         (l0 @ l @ l', map_sum id encode (to_buffer photo')))
               else (l0 @ l, map_sum id encode (to_buffer photo))))"

definition getUserPhoto :: "(nat list \<Rightarrow> string) \<Rightarrow> services \<Rightarrow> jsval \<Rightarrow> string option comp" where
  "getUserPhoto encode sv upn =
     (case getUserPhoto_try encode sv upn of
        (l, Inl error) \<Rightarrow> (l, Inr None)
      | (l, Inr encodedPhoto) \<Rightarrow> (l, Inr (Some encodedPhoto)))"

subsection \<open>The pin\<close>

text \<open>
  The configured length: \<open>env\<close> is \<^verbatim>\<open>process.env.ISSUANCE_PIN_CODE_LENGTH\<close>
  (\<open>None\<close> when unset), \<open>parseInt\<close> the language's function with \<open>None\<close> for NaN.
\<close>

definition pinCodeLength :: "(string \<Rightarrow> int option) \<Rightarrow> string option \<Rightarrow> int" where
  "pinCodeLength parseInt env =
     (case env of
        None \<Rightarrow> 4
      | Some s \<Rightarrow>
          if s = [] then 4
          else (case parseInt s of
                  None \<Rightarrow> 4
                | Some n \<Rightarrow> if n < 0 \<or> n > 6 then 4 else n))"

text \<open>
  Numbers are IEEE doubles. The product of the double \<open>m / 2 ^ k\<close> and an
  integer \<open>n\<close> is the exact product \<open>m * n / 2 ^ k\<close> rounded to 53 significant
  bits, ties to even. \<open>excess_bits x\<close> is the number of bits that \<open>x\<close> has
  beyond 53, and \<open>round53 x\<close> the integer \<open>x\<close> rounded to 53 significant bits.
\<close>

fun excess_bits :: "nat \<Rightarrow> nat" where
  "excess_bits x = (if x < 9007199254740992 then 0 else Suc (excess_bits (x div 2)))"

definition round53 :: "nat \<Rightarrow> nat" where
  "round53 x =
     (let d = excess_bits x;
          q = x div 2 ^ d;
          rem = x mod 2 ^ d
      in if d = 0 then x
         else if 2 ^ d < 2 * rem \<or> (2 * rem = 2 ^ d \<and> odd q) then (q + 1) * 2 ^ d
         else q * 2 ^ d)"

text \<open>
  \<^verbatim>\<open>Math.floor(Math.random() * (max - min + 1)) + min\<close> for a length \<open>L > 0\<close>
  that the configuration allows. The powers of ten, \<open>max - min + 1\<close>, the floor
  and the sum are integers below \<open>2 ^ 53\<close> and exact; the product is rounded.
\<close>

definition pinCode :: "int \<Rightarrow> nat \<times> nat \<Rightarrow> int" where
  "pinCode L r =
     (let min = 10 ^ nat (L - 1);
          max = 10 ^ nat L - 1;
          (m, k) = r
      in int (round53 (m * nat (max - min + 1)) div 2 ^ k) + min)"

text \<open>\<^verbatim>\<open>toString()\<close> of an integer: its decimal digits.\<close>

fun digits :: "nat \<Rightarrow> string" where
  "digits n = (if n < 10 then [''0123456789'' ! n] else digits (n div 10) @ [''0123456789'' ! (n mod 10)])"

definition toString :: "int \<Rightarrow> string" where
  "toString i = (if i < 0 then CHR ''-'' # digits (nat (- i)) else digits (nat i))"

text \<open>\<^verbatim>\<open>issuanceRequest.pin\<close>: its value and length, or \<open>None\<close> when it is not set.\<close>

definition issuance_pin :: "int \<Rightarrow> nat \<times> nat \<Rightarrow> (string \<times> int) option" where
  "issuance_pin L r = (if L > 0 then Some (toString (pinCode L r), L) else None)"

subsection \<open>Creating a request\<close>

text \<open>What \<^verbatim>\<open>createIssuanceRequest\<close> and \<^verbatim>\<open>createVerificationRequest\<close> return.\<close>

record created_request =
  requestId :: string
  url :: jsval
  expiry :: jsval
  qrCode :: jsval
  result_pin :: "string option"

text \<open>
  \<^verbatim>\<open>createIssuanceRequest(userData)\<close> with the configured pin length \<open>L\<close>
  (\<open>user_data\<close> is the argument).
  Building the document reads \<^verbatim>\<open>userData.displayName\<close>, which throws
  for user data that is \<^verbatim>\<open>null\<close>. The entry is stored after the post has
  resolved and before \<^verbatim>\<open>response.data.url\<close> is read; every error is thrown
  again with the message prefixed.
\<close>

definition createIssuanceRequest ::
  "int \<Rightarrow> services \<Rightarrow> issuance requestStore \<Rightarrow> jsval
     \<Rightarrow> issuance requestStore \<times> created_request comp" where
  "createIssuanceRequest L sv store user_data =
     (let failed = (\<lambda>e. Error [] (''Failed to create issuance request: '' @ message e))
      in case getAccessToken sv of
           (l, Inl e) \<Rightarrow> (store, l, Inl (failed e))
         | (l, Inr accessToken) \<Rightarrow>
             if nullish user_data then (store, l, Inl (failed type_error))
             else
             let requestId = uuidv4 sv;
                 pin = issuance_pin L (random sv);
                 post = PostIssuance accessToken requestId pin user_data
             in (case axios_post sv post of
                   Inl e \<Rightarrow> (store, l @ [post], Inl (failed e))
                 | Inr response_data \<Rightarrow>
                     let store' = store(requestId \<mapsto> \<lparr>
                           type = ''issuance'',
                           status = Str ''request_created'',
                           data = response_data,
                           created = now sv,
                           updated = None,
                           userData = user_data,
                           pin = map_option fst pin\<rparr>)
                     in if nullish response_data
                        then (store', l @ [post], Inl (failed type_error))
                        else (store', l @ [post], Inr \<lparr>
                           requestId = requestId,
                           url = getprop response_data ''url'',
                           expiry = getprop response_data ''expiry'',
                           qrCode = getprop response_data ''qrCode'',
                           result_pin = map_option fst pin\<rparr>)))"

text \<open>
  \<^verbatim>\<open>createVerificationRequest(options = {})\<close>; the endpoint passes
  \<^verbatim>\<open>{includeFaceCheck}\<close>. The default stands in for \<^verbatim>\<open>undefined\<close>, and
  \<^verbatim>\<open>options.includeFaceCheck\<close> throws for \<^verbatim>\<open>null\<close>.
\<close>

definition createVerificationRequest ::
  "services \<Rightarrow> verification requestStore \<Rightarrow> jsval
     \<Rightarrow> verification requestStore \<times> created_request comp" where
  "createVerificationRequest sv store opts0 =
     (let failed = (\<lambda>e. Error [] (''Failed to create verification request: '' @ message e))
      in case getAccessToken sv of
           (l, Inl e) \<Rightarrow> (store, l, Inl (failed e))
         | (l, Inr accessToken) \<Rightarrow>
             let opts = (if opts0 = Undefined then Obj [] else opts0) in
             if nullish opts then (store, l, Inl (failed type_error))
             else
             let requestId = uuidv4 sv;
                 post = PostPresentation accessToken requestId (truthy (getprop opts ''includeFaceCheck''))
             in (case axios_post sv post of
                   Inl e \<Rightarrow> (store, l @ [post], Inl (failed e))
                 | Inr response_data \<Rightarrow>
                     let store' = store(requestId \<mapsto> \<lparr>
                           type = ''verification'',
                           status = Str ''request_created'',
                           data = response_data,
                           created = now sv,
                           updated = None,
                           options = opts,
                           verifiedCredential = None,
                           faceCheckResult = None\<rparr>)
                     in if nullish response_data
                        then (store', l @ [post], Inl (failed type_error))
                        else (store', l @ [post], Inr \<lparr>
                           requestId = requestId,
                           url = getprop response_data ''url'',
                           expiry = getprop response_data ''expiry'',
                           qrCode = getprop response_data ''qrCode'',
                           result_pin = None\<rparr>)))"

section \<open>The identity header\<close>

text \<open>
  \<^verbatim>\<open>claims.find(c => c.typ === claimType)\<close> on an array: reading \<^verbatim>\<open>c.typ\<close>
  of an entry that is \<^verbatim>\<open>null\<close> throws.
\<close>

fun claims_find :: "jsval list \<Rightarrow> string \<Rightarrow> js_error + jsval option" where
  "claims_find [] claimType = Inr None"
| "claims_find (c # cs) claimType =
     (if nullish c then Inl type_error
      else if getprop c ''typ'' = Str claimType then Inr (Some c)
      else claims_find cs claimType)"

text \<open>
  \<^verbatim>\<open>findClaim\<close>; \<open>claims\<close> is \<^verbatim>\<open>decodedPrincipal.claims || []\<close>, and calling
  \<^verbatim>\<open>find\<close> on a value that is not an array throws.
\<close>

definition findClaim :: "jsval \<Rightarrow> string \<Rightarrow> js_error + jsval" where
  "findClaim claims claimType =
     (case claims of
        Arr cs \<Rightarrow>
          (case claims_find cs claimType of
             Inl e \<Rightarrow> Inl e
           | Inr None \<Rightarrow> Inr Null
           | Inr (Some claim) \<Rightarrow> Inr (if truthy claim then getprop claim ''val'' else Null))
      | _ \<Rightarrow> Inl type_error)"

text \<open>\<^verbatim>\<open>a || b\<close> where both sides may throw; \<open>b\<close> is evaluated when \<open>a\<close> is falsy.\<close>

definition or_else :: "js_error + jsval \<Rightarrow> js_error + jsval \<Rightarrow> js_error + jsval" where
  "or_else a b = (case a of Inl e \<Rightarrow> Inl e | Inr v \<Rightarrow> if truthy v then Inr v else b)"

record easyAuthUser =
  userId :: jsval
  userDetails :: jsval
  identityProvider :: jsval
  name :: jsval
  email :: jsval
  givenName :: jsval
  surname :: jsval
  userPrincipalName :: jsval
  isAuthenticated :: bool

text \<open>
  \<^verbatim>\<open>parseEasyAuthUser\<close>. \<open>clientPrincipal\<close> is the header
  \<^verbatim>\<open>x-ms-client-principal\<close> (\<open>None\<close> when the request has none); \<open>decode\<close>
  is \<^verbatim>\<open>JSON.parse(Buffer.from(h, 'base64').toString('utf-8'))\<close>, with \<open>None\<close>
  when it throws. First the body of the \<^verbatim>\<open>try\<close> block after the header
  has been found.
\<close>

definition parseEasyAuthUser_try :: "jsval \<Rightarrow> js_error + easyAuthUser" where
  "parseEasyAuthUser_try decodedPrincipal =
     (if nullish decodedPrincipal then Inl type_error
      else
        let claims = or_js (getprop decodedPrincipal ''claims'') (Arr []);
            details = getprop decodedPrincipal ''userDetails''
        in case or_else (findClaim claims ''name'') (Inr details) of
             Inl e \<Rightarrow> Inl e
           | Inr name_v \<Rightarrow>
        (case or_else (findClaim claims ''http://schemas.xmlsoap.org/ws/2005/05/identity/claims/emailaddress'')
                (or_else (findClaim claims ''email'')
                  (or_else (findClaim claims ''preferred_username'') (Inr details))) of
             Inl e \<Rightarrow> Inl e
           | Inr email_v \<Rightarrow>
        (case or_else (findClaim claims ''http://schemas.xmlsoap.org/ws/2005/05/identity/claims/givenname'')
                (findClaim claims ''given_name'') of
             Inl e \<Rightarrow> Inl e
           | Inr givenName_v \<Rightarrow>
        (case or_else (findClaim claims ''http://schemas.xmlsoap.org/ws/2005/05/identity/claims/surname'')
                (findClaim claims ''family_name'') of
             Inl e \<Rightarrow> Inl e
           | Inr surname_v \<Rightarrow>
        (case or_else (findClaim claims ''http://schemas.xmlsoap.org/ws/2005/05/identity/claims/name'')
                (or_else (findClaim claims ''upn'') (Inr details)) of
             Inl e \<Rightarrow> Inl e
           | Inr upn_v \<Rightarrow>
               Inr \<lparr>userId = getprop decodedPrincipal ''userId'',
                    userDetails = details,
                    identityProvider = or_js (getprop decodedPrincipal ''identityProvider'')
                                             (getprop decodedPrincipal ''auth_typ''),
                    name = name_v,
                    email = email_v,
                    givenName = givenName_v,
                    surname = surname_v,
                    userPrincipalName = upn_v,
                    isAuthenticated = True\<rparr>)))))"

definition parseEasyAuthUser :: "(string \<Rightarrow> jsval option) \<Rightarrow> string option \<Rightarrow> easyAuthUser option" where
  "parseEasyAuthUser decode clientPrincipal =
     (case clientPrincipal of
        None \<Rightarrow> None
      | Some h \<Rightarrow>
          if h = [] then None
          else (case decode h of
                  None \<Rightarrow> None
                | Some decodedPrincipal \<Rightarrow>
                    (case parseEasyAuthUser_try decodedPrincipal of
                       Inl error \<Rightarrow> None
                     | Inr user \<Rightarrow> Some user)))"

text \<open>
  \<^verbatim>\<open>requireEasyAuth\<close>: \<open>Inl\<close> is the response it sends without calling
  \<^verbatim>\<open>next\<close>, \<open>Inr\<close> the user it puts on the request before calling it.
\<close>

definition requireEasyAuth :: "(string \<Rightarrow> jsval option) \<Rightarrow> string option \<Rightarrow> response + easyAuthUser" where
  "requireEasyAuth decode clientPrincipal =
     (case parseEasyAuthUser decode clientPrincipal of
        None \<Rightarrow> Inl (Response 401 (Obj [
                  (''error'', Str ''Authentication required''),
                  (''message'', Str ''Please sign in through Azure App Service authentication'')]))
      | Some user \<Rightarrow> Inr user)"

section \<open>The protected endpoints\<close>

text \<open>
  The handler of \<^verbatim>\<open>GET /api/user\<close>, run by \<^verbatim>\<open>next\<close>. It does not touch
  the store. Nothing in its outer \<^verbatim>\<open>try\<close> block throws once the inner one
  has caught the profile error.
\<close>

definition api_user_handler :: "services \<Rightarrow> easyAuthUser \<Rightarrow> ext_call list \<times> response" where
  "api_user_handler sv user =
     (let upn = or_js (userPrincipalName user) (or_js (email user) (userDetails user))
      in case getUserProfile sv upn of
           (l, Inr userProfile) \<Rightarrow>
             (l, Response 200 (Obj [(''user'', userProfile), (''authenticated'', Bool True)]))
         | (l, Inl profileError) \<Rightarrow>
             (l, Response 200 (Obj [
                (''user'', Obj [
                   (''displayName'', or_js (name user) (Str ''Unknown User'')),
                   (''mail'', or_js (email user) (Str ''No email'')),
                   (''jobTitle'', Str ''Employee''),
                   (''userPrincipalName'', or_js (userPrincipalName user) (email user))]),
                (''authenticated'', Bool True)])))"

text \<open>
  \<^verbatim>\<open>user.name?.split(' ')[0]\<close> and \<^verbatim>\<open>user.name?.split(' ').slice(1).join(' ')\<close>:
  \<^verbatim>\<open>undefined\<close> for a name that is nullish, a TypeError for one that is not
  a string.
\<close>

definition first_word :: "jsval \<Rightarrow> js_error + jsval" where
  "first_word n =
     (if nullish n then Inr Undefined
      else case n of
             Str s \<Rightarrow> Inr (Str (takeWhile (\<lambda>c. c \<noteq> CHR '' '') s))
           | _ \<Rightarrow> Inl type_error)"

definition rest_words :: "jsval \<Rightarrow> js_error + jsval" where
  "rest_words n =
     (if nullish n then Inr Undefined
      else case n of
             Str s \<Rightarrow> Inr (Str (drop 1 (dropWhile (\<lambda>c. c \<noteq> CHR '' '') s)))
           | _ \<Rightarrow> Inl type_error)"

text \<open>The profile built from the header when the directory lookup has failed.\<close>

definition easyAuth_profile :: "easyAuthUser \<Rightarrow> js_error + jsval" where
  "easyAuth_profile user =
     (case or_else (Inr (givenName user)) (first_word (name user)) of
        Inl e \<Rightarrow> Inl e
      | Inr given \<Rightarrow>
          (case or_else (Inr (surname user)) (rest_words (name user)) of
             Inl e \<Rightarrow> Inl e
           | Inr sur \<Rightarrow>
               Inr (Obj [
                 (''displayName'', name user),
                 (''givenName'', given),
                 (''surname'', sur),
                 (''mail'', email user),
                 (''jobTitle'', Str ''Employee''),
                 (''preferredLanguage'', Str ''en-US''),
                 (''userPrincipalName'', or_js (userPrincipalName user) (email user))])))"

text \<open>\<^verbatim>\<open>userProfile.photo = userPhoto\<close> on the profile object.\<close>

fun set_photo :: "jsval \<Rightarrow> jsval \<Rightarrow> jsval" where
  "set_photo (Obj fs) v =
     (if ''photo'' \<in> fst ` set fs
      then Obj (map (\<lambda>(k, x). if k = ''photo'' then (k, v) else (k, x)) fs)
      else Obj (fs @ [(''photo'', v)]))"
| "set_photo p v = p"

definition issue_failed :: "js_error \<Rightarrow> response" where
  "issue_failed error = Response 500 (Obj [
     (''success'', Bool False),
     (''error'', Str (message error)),
     (''message'', Str ''Failed to create credential issuance request'')])"

text \<open>
  The handler of \<^verbatim>\<open>POST /api/issue-credential\<close>: profile (with its
  fallback), photo, then the issuance request; any error that reaches the outer
  \<^verbatim>\<open>catch\<close> is answered with 500.
\<close>

definition issue_credential_handler ::
  "(nat list \<Rightarrow> string) \<Rightarrow> int \<Rightarrow> services \<Rightarrow> issuance requestStore \<Rightarrow> easyAuthUser
     \<Rightarrow> issuance requestStore \<times> ext_call list \<times> response" where
  "issue_credential_handler encode L sv store user =
     (let upn = or_js (userPrincipalName user) (email user);
          (l1, profile) =
            (case getUserProfile sv upn of
               (l, Inr p) \<Rightarrow> (l, Inr p)
             | (l, Inl profileError) \<Rightarrow> (l, easyAuth_profile user))
      in case profile of
           Inl error \<Rightarrow> (store, l1, issue_failed error)
         | Inr userProfile0 \<Rightarrow>
             let (l2, userPhoto) = getUserPhoto encode sv upn;
                 userProfile =
                   (case userPhoto of
                      Inr (Some p) \<Rightarrow> if p \<noteq> [] then set_photo userProfile0 (Str p) else userProfile0
                    | _ \<Rightarrow> userProfile0)
             in (case createIssuanceRequest L sv store userProfile of
                   (store', l3, Inl error) \<Rightarrow> (store', l1 @ l2 @ l3, issue_failed error)
                 | (store', l3, Inr issuanceResult) \<Rightarrow>
                     (store', l1 @ l2 @ l3, Response 200 (Obj [
                        (''success'', Bool True),
                        (''requestId'', Str (requestId issuanceResult)),
                        (''url'', url issuanceResult),
                        (''expiry'', expiry issuanceResult),
                        (''qrCode'', qrCode issuanceResult),
                        (''pin'', (case result_pin issuanceResult of None \<Rightarrow> Null | Some p \<Rightarrow> Str p)),
                        (''message'', Str ''Credential issuance request created successfully'')]))))"

text \<open>The two routes: \<^verbatim>\<open>requireEasyAuth\<close>, then the handler.\<close>

definition get_api_user ::
  "(string \<Rightarrow> jsval option) \<Rightarrow> services \<Rightarrow> issuance requestStore \<Rightarrow> string option
     \<Rightarrow> issuance requestStore \<times> ext_call list \<times> response" where
  "get_api_user decode sv store clientPrincipal =
     (case requireEasyAuth decode clientPrincipal of
        Inl rejected \<Rightarrow> (store, [], rejected)
      | Inr user \<Rightarrow> (case api_user_handler sv user of (l, r) \<Rightarrow> (store, l, r)))"

definition post_api_issue_credential ::
  "(string \<Rightarrow> jsval option) \<Rightarrow> (nat list \<Rightarrow> string) \<Rightarrow> int \<Rightarrow> services \<Rightarrow> issuance requestStore
     \<Rightarrow> string option \<Rightarrow> issuance requestStore \<times> ext_call list \<times> response" where
  "post_api_issue_credential decode encode L sv store clientPrincipal =
     (case requireEasyAuth decode clientPrincipal of
        Inl rejected \<Rightarrow> (store, [], rejected)
      | Inr user \<Rightarrow> issue_credential_handler encode L sv store user)"

section \<open>The verification endpoint\<close>

definition verify_failed :: "js_error \<Rightarrow> response" where
  "verify_failed error = Response 500 (Obj [
     (''success'', Bool False),
     (''error'', Str (message error)),
     (''message'', Str ''Failed to create credential verification request'')])"

text \<open>
  \<^verbatim>\<open>POST /api/verify-credential\<close>. The destructuring
  \<^verbatim>\<open>const { includeFaceCheck = false } = req.body\<close> throws on a nullish body
  and takes the default for a missing member.
\<close>

definition post_api_verify_credential ::
  "services \<Rightarrow> verification requestStore \<Rightarrow> jsval
     \<Rightarrow> verification requestStore \<times> ext_call list \<times> response" where
  "post_api_verify_credential sv store reqbody =
     (if nullish reqbody then (store, [], verify_failed type_error)
      else
        let includeFaceCheck =
              (if getprop reqbody ''includeFaceCheck'' = Undefined then Bool False
               else getprop reqbody ''includeFaceCheck'')
        in case createVerificationRequest sv store (Obj [(''includeFaceCheck'', includeFaceCheck)]) of
             (store', l, Inl error) \<Rightarrow> (store', l, verify_failed error)
           | (store', l, Inr verificationResult) \<Rightarrow>
               (store', l, Response 200 (Obj [
                  (''success'', Bool True),
                  (''requestId'', Str (requestId verificationResult)),
                  (''url'', url verificationResult),
                  (''expiry'', expiry verificationResult),
                  (''qrCode'', qrCode verificationResult),
                  (''faceCheckEnabled'', includeFaceCheck),
                  (''message'', Str ''Credential verification request created successfully'')])))"

section \<open>Notions used in the statements\<close>

text \<open>
  The calls that acquire the token of the request service (the Graph client
  acquires tokens of its own, for another scope), and the calls that post a
  request document.
\<close>

definition is_token :: "ext_call \<Rightarrow> bool" where
  "is_token c = (c = AcquireToken ''3db474b9-6a0c-4840-96ac-1fceb342124f/.default'')"

fun is_post :: "ext_call \<Rightarrow> bool" where
  "is_post (PostIssuance accessToken state p user_data) = True"
| "is_post (PostPresentation accessToken state faceCheck) = True"
| "is_post c = False"

text \<open>
  No token for a scope: the acquisition rejects, or resolves to \<^verbatim>\<open>null\<close>.
\<close>

definition token_refused :: "services \<Rightarrow> string \<Rightarrow> bool" where
  "token_refused sv scope =
     (case acquireTokenByClientCredential sv scope of
        Inl e \<Rightarrow> True
      | Inr response \<Rightarrow> nullish response)"

text \<open>
  A decoded identity header with the structure the platform injects: a value that
  is not \<^verbatim>\<open>null\<close>, whose \<^verbatim>\<open>claims\<close> member is missing (or falsy) or is a
  list of claims none of which is \<^verbatim>\<open>null\<close>.
\<close>

definition valid_principal :: "jsval \<Rightarrow> bool" where
  "valid_principal decodedPrincipal =
     (if nullish decodedPrincipal then False
      else if truthy (getprop decodedPrincipal ''claims'')
      then (case getprop decodedPrincipal ''claims'' of
              Arr cs \<Rightarrow> list_all (\<lambda>c. \<not> nullish c) cs
            | _ \<Rightarrow> False)
      else True)"

subsection \<open>Example inputs\<close>

definition ex_reply :: jsval where
  "ex_reply = Obj [(''url'', Str ''openid-vc://request''), (''expiry'', Num 1700000000),
                   (''qrCode'', Str ''data:image/png;base64,AAAA'')]"

text \<open>
  Services in which the token and the post succeed, the directory knows no user
  and has a photo of Jane in the second size only.
\<close>

definition ex_services :: services where
  "ex_services = \<lparr>
     acquireTokenByClientCredential = (\<lambda>scope. Inr (Obj [(''accessToken'', Str ''token'')])),
     initWithMiddleware = None,
     graph_user = (\<lambda>upn. Inl (Error [] ''Not found'')),
     graph_photo = (\<lambda>c. if c = GraphPhotoSize (Str ''jane@example.com'') ''120x120''
                         then Inr (PBuffer [1, 2, 3]) else Inl (Error [] ''Not found'')),
     axios_post = (\<lambda>c. Inr ex_reply),
     uuidv4 = ''r1'',
     now = 1000,
     random = (4503599627370496, 53)\<rparr>"

text \<open>The same services with a platform that refuses every post.\<close>

definition ex_refusing :: services where
  "ex_refusing = ex_services\<lparr>axios_post := (\<lambda>c. Inl (Error [] ''Request failed with status code 401''))\<rparr>"

text \<open>The same services with an identity platform that gives tokens for the Graph scope only.\<close>

definition ex_no_token :: services where
  "ex_no_token = ex_services\<lparr>acquireTokenByClientCredential :=
     (\<lambda>scope. if scope = ''https://graph.microsoft.com/.default''
              then Inr (Obj [(''accessToken'', Str ''graph-token'')])
              else Inl (Error ''invalid_client'' ''AADSTS7000215: Invalid client secret provided''))\<rparr>"

definition ex_profile :: jsval where
  "ex_profile = Obj [(''displayName'', Str ''Jane Doe''), (''mail'', Str ''jane@example.com'')]"

definition ex_issuance :: issuance where
  "ex_issuance = \<lparr>type = ''issuance'', status = Str ''request_created'', data = ex_reply,
     created = 1000, updated = None, userData = ex_profile, pin = Some ''5500''\<rparr>"

definition ex_options :: jsval where
  "ex_options = Obj [(''includeFaceCheck'', Bool False)]"

definition ex_verification :: verification where
  "ex_verification = \<lparr>type = ''verification'', status = Str ''request_created'', data = ex_reply,
     created = 1000, updated = None, options = ex_options,
     verifiedCredential = None, faceCheckResult = None\<rparr>"

definition ex_credential :: jsval where
  "ex_credential = Obj [
     (''type'', Arr [Str ''VerifiableCredential'', Str ''VerifiedEmployee'']),
     (''issuer'', Str ''did:web:example.com''),
     (''claims'', Obj [(''displayName'', Str ''Jane Doe'')]),
     (''faceCheck'', Obj [(''faceCheckPassed'', Bool True), (''confidence'', Num 86)])]"

definition ex_principal :: jsval where
  "ex_principal = Obj [
     (''userId'', Str ''u1''),
     (''userDetails'', Str ''jane@example.com''),
     (''claims'', Arr [Obj [(''typ'', Str ''name''), (''val'', Str ''Jane Doe'')]])]"

definition ex_user :: easyAuthUser where
  "ex_user = \<lparr>userId = Str ''u1'', userDetails = Str ''jane@example.com'',
     identityProvider = Undefined, name = Str ''Jane Doe'', email = Str ''jane@example.com'',
     givenName = Null, surname = Null, userPrincipalName = Str ''jane@example.com'',
     isAuthenticated = True\<rparr>"

section \<open>Lemmas\<close>

declare digits.simps [simp del]

lemma ex_objects [simp]: "\<not> nullish ex_profile" "\<not> nullish ex_options" "ex_options \<noteq> Undefined"
  by (simp_all add: ex_profile_def ex_options_def)

declare excess_bits.simps [simp del]

lemma store_get_Some: "store_get store v = Some (k, r) \<Longrightarrow> v = Str k \<and> store k = Some r"
  by (cases v) (auto split: option.splits)




lemma request_callback_frame:
  assumes "request_callback t store b = (store', out)"
  shows "dom store' = dom store"
    and "Str k \<noteq> getprop b ''state'' \<Longrightarrow> store' k = store k"
    and "store k = Some r \<Longrightarrow>
           \<exists>r'. store' k = Some r' \<and> r' = r\<lparr>status := status r', updated := updated r'\<rparr>"
  using assms
  by (auto simp: request_callback_def Let_def split: if_splits option.splits dest!: store_get_Some)

lemma verification_callback_frame:
  assumes "verification_callback strnum t store b = (store', out)"
  shows "dom store' = dom store"
    and "Str k \<noteq> getprop b ''state'' \<Longrightarrow> store' k = store k"
    and "store k = Some r \<Longrightarrow> \<exists>r'. store' k = Some r' \<and>
           r' = r\<lparr>status := status r', updated := updated r',
                  verifiedCredential := verifiedCredential r',
                  faceCheckResult := faceCheckResult r'\<rparr>"
  using assms
  by (auto simp: verification_callback_def Let_def split: if_splits option.splits dest!: store_get_Some)

subsection \<open>The identity header\<close>

lemma claims_find_ok:
  "list_all (\<lambda>c. \<not> nullish c) cs \<Longrightarrow> \<exists>r. claims_find cs claimType = Inr r"
  by (induction cs) auto

lemma findClaim_ok:
  "list_all (\<lambda>c. \<not> nullish c) cs \<Longrightarrow> \<exists>v. findClaim (Arr cs) claimType = Inr v"
  using claims_find_ok[of cs claimType]
  by (auto simp: findClaim_def split: option.splits)

lemma or_else_ok:
  "\<exists>v. a = Inr v \<Longrightarrow> \<exists>v. b = Inr v \<Longrightarrow> \<exists>v. or_else a b = Inr v"
  by (auto simp: or_else_def)

lemma valid_claims:
  assumes "valid_principal dp"
  shows "\<exists>cs. or_js (getprop dp ''claims'') (Arr []) = Arr cs \<and> list_all (\<lambda>c. \<not> nullish c) cs"
  using assms
  by (auto simp: valid_principal_def or_js_def split: if_splits jsval.splits)

lemma parse_try_ok:
  assumes "valid_principal dp"
  shows "\<exists>user. parseEasyAuthUser_try dp = Inr user"
proof -
  from valid_claims[OF assms] obtain cs where
    cs: "or_js (getprop dp ''claims'') (Arr []) = Arr cs" "list_all (\<lambda>c. \<not> nullish c) cs" by blast
  have nn: "\<not> nullish dp" using assms by (auto simp: valid_principal_def split: if_splits)
  note f = findClaim_ok[OF cs(2)]
  have d: "\<exists>v. (Inr (getprop dp ''userDetails'') :: js_error + jsval) = Inr v" by blast
  obtain v1 where v1: "or_else (findClaim (Arr cs) ''name'') (Inr (getprop dp ''userDetails'')) = Inr v1"
    using or_else_ok[OF f d] by blast
  obtain v2 where v2:
    "or_else (findClaim (Arr cs) ''http://schemas.xmlsoap.org/ws/2005/05/identity/claims/emailaddress'')
       (or_else (findClaim (Arr cs) ''email'')
          (or_else (findClaim (Arr cs) ''preferred_username'') (Inr (getprop dp ''userDetails'')))) = Inr v2"
    using or_else_ok[OF f or_else_ok[OF f or_else_ok[OF f d]]] by blast
  obtain v3 where v3:
    "or_else (findClaim (Arr cs) ''http://schemas.xmlsoap.org/ws/2005/05/identity/claims/givenname'')
       (findClaim (Arr cs) ''given_name'') = Inr v3"
    using or_else_ok[OF f f] by blast
  obtain v4 where v4:
    "or_else (findClaim (Arr cs) ''http://schemas.xmlsoap.org/ws/2005/05/identity/claims/surname'')
       (findClaim (Arr cs) ''family_name'') = Inr v4"
    using or_else_ok[OF f f] by blast
  obtain v5 where v5:
    "or_else (findClaim (Arr cs) ''http://schemas.xmlsoap.org/ws/2005/05/identity/claims/name'')
       (or_else (findClaim (Arr cs) ''upn'') (Inr (getprop dp ''userDetails''))) = Inr v5"
    using or_else_ok[OF f or_else_ok[OF f d]] by blast
  show ?thesis
    unfolding parseEasyAuthUser_try_def Let_def cs(1)
    by (simp only: nn if_False v1 v2 v3 v4 v5 sum.case) blast
qed

text \<open>
  A header that decodes to \<^verbatim>\<open>null\<close>, or whose \<^verbatim>\<open>claims\<close> is a truthy value
  that is no array, is caught by the \<^verbatim>\<open>catch\<close> and counts as no user.
\<close>

lemma null_principal_rejected:
  "h \<noteq> [] \<Longrightarrow> decode h = Some Null \<Longrightarrow> parseEasyAuthUser decode (Some h) = None"
  by (simp add: parseEasyAuthUser_def parseEasyAuthUser_try_def)

lemma claims_not_array_rejected:
  "h \<noteq> [] \<Longrightarrow> decode h = Some (Obj [(''claims'', Str ''x'')]) \<Longrightarrow>
   parseEasyAuthUser decode (Some h) = None"
  by (simp add: parseEasyAuthUser_def parseEasyAuthUser_try_def or_js_def or_else_def findClaim_def)

subsection \<open>The call log\<close>

lemma accessTokenProvider_log:
  "fst (accessTokenProvider sv) = [AcquireToken ''https://graph.microsoft.com/.default'']"
  by (simp add: accessTokenProvider_def Let_def split: sum.splits)

lemma graph_get_log:
  assumes "\<not> is_post c" "\<not> is_token c"
  shows "filter is_post (fst (graph_get (accessTokenProvider sv) c r)) = []
   \<and> filter is_token (fst (graph_get (accessTokenProvider sv) c r)) = []"
proof (cases "accessTokenProvider sv")
  case (Pair l x)
  then have "l = [AcquireToken ''https://graph.microsoft.com/.default'']"
    using accessTokenProvider_log[of sv] by simp
  then have "filter is_post l = [] \<and> filter is_token l = []"
    by (simp add: is_token_def)
  then show ?thesis using Pair assms
    by (cases x) (simp_all add: graph_get_def)
qed

lemma graph_requests [simp]:
  "\<not> is_post (GraphUser u)" "\<not> is_token (GraphUser u)"
  "\<not> is_post (GraphPhotoSize u sz)" "\<not> is_token (GraphPhotoSize u sz)"
  "\<not> is_post (GraphPhoto u)" "\<not> is_token (GraphPhoto u)"
  by (simp_all add: is_token_def)

lemma getAccessToken_log:
  "fst (getAccessToken sv) = [AcquireToken ''3db474b9-6a0c-4840-96ac-1fceb342124f/.default'']"
  by (simp add: getAccessToken_def Let_def split: sum.splits)

lemma getUserProfile_log:
  "filter is_post (fst (getUserProfile sv u)) = [] \<and> filter is_token (fst (getUserProfile sv u)) = []"
  using graph_get_log[of "GraphUser u" sv "graph_user sv u"]
  by (auto simp: getUserProfile_def getGraphClient_def Let_def
           split: sum.splits option.splits prod.splits)

lemma try_sizes_log:
  "filter is_post (fst (try_sizes (accessTokenProvider sv) sv u ss)) = []
   \<and> filter is_token (fst (try_sizes (accessTokenProvider sv) sv u ss)) = []"
proof (induction ss)
  case Nil
  then show ?case by simp
next
  case (Cons sz ss)
  then show ?case
    using graph_get_log[of "GraphPhotoSize u sz" sv "graph_photo sv (GraphPhotoSize u sz)"]
    by (auto split: sum.splits prod.splits)
qed

lemma getUserPhoto_log:
  "filter is_post (fst (getUserPhoto encode sv u)) = []
   \<and> filter is_token (fst (getUserPhoto encode sv u)) = []"
  using try_sizes_log[of sv u photoSizes]
    graph_get_log[of "GraphPhoto u" sv "graph_photo sv (GraphPhoto u)"]
  by (auto simp: getUserPhoto_def getUserPhoto_try_def getGraphClient_def Let_def
           split: sum.splits option.splits prod.splits)

lemma getUserPhoto_returns: "\<exists>l r. getUserPhoto encode sv upn = (l, Inr r)"
  by (auto simp: getUserPhoto_def split: prod.splits sum.splits)

lemma getAccessToken_refused:
  "token_refused sv ''3db474b9-6a0c-4840-96ac-1fceb342124f/.default'' \<Longrightarrow>
   \<exists>e. getAccessToken sv = ([AcquireToken ''3db474b9-6a0c-4840-96ac-1fceb342124f/.default''], Inl e)"
  by (auto simp: token_refused_def getAccessToken_def Let_def split: sum.splits)

lemma createIssuanceRequest_no_token:
  assumes "token_refused sv ''3db474b9-6a0c-4840-96ac-1fceb342124f/.default''"
  shows "\<exists>e. createIssuanceRequest L sv store ud =
           (store, [AcquireToken ''3db474b9-6a0c-4840-96ac-1fceb342124f/.default''], Inl e)"
  using getAccessToken_refused[OF assms]
  by (auto simp: createIssuanceRequest_def Let_def)

lemma createIssuanceRequest_refused:
  assumes "\<forall>c. isl (axios_post sv c)"
  shows "\<exists>calls e. createIssuanceRequest L sv store ud = (store, calls, Inl e)
           \<and> length (filter is_post calls) \<le> 1 \<and> length (filter is_token calls) \<le> 1"
proof (cases "getAccessToken sv")
  case (Pair l r)
  have l: "l = [AcquireToken ''3db474b9-6a0c-4840-96ac-1fceb342124f/.default'']"
    using getAccessToken_log[of sv] Pair by simp
  from assms have p: "\<And>c. \<exists>e. axios_post sv c = Inl e" by (metis isl_def)
  show ?thesis
  proof (cases r)
    case (Inl e)
    then show ?thesis using Pair l by (simp add: createIssuanceRequest_def Let_def is_token_def)
  next
    case (Inr tok)
    obtain e where
      "axios_post sv (PostIssuance tok (uuidv4 sv) (issuance_pin L (random sv)) ud) = Inl e"
      using p by blast
    then show ?thesis using Pair Inr l
      by (simp add: createIssuanceRequest_def Let_def is_token_def)
  qed
qed

lemma createVerificationRequest_no_token:
  assumes "token_refused sv ''3db474b9-6a0c-4840-96ac-1fceb342124f/.default''"
  shows "\<exists>e. createVerificationRequest sv store opts =
           (store, [AcquireToken ''3db474b9-6a0c-4840-96ac-1fceb342124f/.default''], Inl e)"
  using getAccessToken_refused[OF assms]
  by (auto simp: createVerificationRequest_def Let_def)

lemma createVerificationRequest_refused:
  assumes "\<forall>c. isl (axios_post sv c)"
  shows "\<exists>calls e. createVerificationRequest sv store opts = (store, calls, Inl e)
           \<and> length (filter is_post calls) \<le> 1 \<and> length (filter is_token calls) \<le> 1"
proof (cases "getAccessToken sv")
  case (Pair l r)
  have l: "l = [AcquireToken ''3db474b9-6a0c-4840-96ac-1fceb342124f/.default'']"
    using getAccessToken_log[of sv] Pair by simp
  from assms have p: "\<And>c. \<exists>e. axios_post sv c = Inl e" by (metis isl_def)
  show ?thesis
  proof (cases r)
    case (Inl e)
    then show ?thesis using Pair l by (simp add: createVerificationRequest_def Let_def is_token_def)
  next
    case (Inr tok)
    define o' where "o' = (if opts = Undefined then Obj [] else opts)"
    obtain e where
      "axios_post sv (PostPresentation tok (uuidv4 sv) (truthy (getprop o' ''includeFaceCheck''))) = Inl e"
      using p by blast
    then show ?thesis using Pair Inr l
      by (simp add: createVerificationRequest_def Let_def is_token_def o'_def)
  qed
qed

subsection \<open>Failing creation\<close>

lemma createIssuanceRequest_fails:
  assumes "token_refused sv ''3db474b9-6a0c-4840-96ac-1fceb342124f/.default''
           \<or> (\<forall>c. isl (axios_post sv c))"
  shows "\<exists>calls e. createIssuanceRequest L sv store ud = (store, calls, Inl e)
           \<and> length (filter is_post calls) \<le> 1 \<and> length (filter is_token calls) \<le> 1
           \<and> (token_refused sv ''3db474b9-6a0c-4840-96ac-1fceb342124f/.default''
                \<longrightarrow> filter is_post calls = [])"
proof (cases "token_refused sv ''3db474b9-6a0c-4840-96ac-1fceb342124f/.default''")
  case True
  from createIssuanceRequest_no_token[OF True, of L store ud] show ?thesis
    by (auto simp: is_token_def)
next
  case False
  with assms have "\<forall>c. isl (axios_post sv c)" by simp
  from createIssuanceRequest_refused[OF this, of L store ud] False show ?thesis by auto
qed

lemma createVerificationRequest_fails:
  assumes "token_refused sv ''3db474b9-6a0c-4840-96ac-1fceb342124f/.default''
           \<or> (\<forall>c. isl (axios_post sv c))"
  shows "\<exists>calls e. createVerificationRequest sv store opts = (store, calls, Inl e)
           \<and> length (filter is_post calls) \<le> 1 \<and> length (filter is_token calls) \<le> 1
           \<and> (token_refused sv ''3db474b9-6a0c-4840-96ac-1fceb342124f/.default''
                \<longrightarrow> filter is_post calls = [])"
proof (cases "token_refused sv ''3db474b9-6a0c-4840-96ac-1fceb342124f/.default''")
  case True
  from createVerificationRequest_no_token[OF True, of store opts] show ?thesis
    by (auto simp: is_token_def)
next
  case False
  with assms have "\<forall>c. isl (axios_post sv c)" by simp
  from createVerificationRequest_refused[OF this, of store opts] False show ?thesis by auto
qed

subsection \<open>The photo sizes\<close>

lemma provider_ok:
  "acquireTokenByClientCredential sv ''https://graph.microsoft.com/.default'' = Inr response \<Longrightarrow>
   \<not> nullish response \<Longrightarrow>
   accessTokenProvider sv =
     ([AcquireToken ''https://graph.microsoft.com/.default''], Inr (getprop response ''accessToken''))"
  by (simp add: accessTokenProvider_def)

lemma provider_refused:
  "token_refused sv ''https://graph.microsoft.com/.default'' \<Longrightarrow>
   \<exists>e. accessTokenProvider sv = ([AcquireToken ''https://graph.microsoft.com/.default''], Inl e)"
  by (auto simp: token_refused_def accessTokenProvider_def split: sum.splits)

lemma try_sizes_first_success:
  "\<forall>s \<in> set pre. isl (graph_photo sv (GraphPhotoSize upn s)) \<Longrightarrow>
   graph_photo sv (GraphPhotoSize upn sz) = Inr p \<Longrightarrow>
   try_sizes (l, Inr tok) sv upn (pre @ sz # post) =
     (concat (map (\<lambda>s. l @ [GraphPhotoSize upn s]) (pre @ [sz])), Some p)"
  by (induction pre) (auto simp: isl_def graph_get_def)

lemma try_sizes_all_fail:
  "\<forall>s \<in> set sizes. isl (graph_photo sv (GraphPhotoSize upn s)) \<Longrightarrow>
   try_sizes (l, Inr tok) sv upn sizes =
     (concat (map (\<lambda>s. l @ [GraphPhotoSize upn s]) sizes), None)"
  by (induction sizes) (auto simp: isl_def graph_get_def)

lemma try_sizes_no_token:
  "try_sizes (l, Inl e) sv upn sizes = (concat (map (\<lambda>s. l) sizes), None)"
  by (induction sizes) (auto simp: graph_get_def)

subsection \<open>The pin\<close>

lemma digits_length:
  "10 ^ k \<le> n \<Longrightarrow> n < 10 ^ Suc k \<Longrightarrow> length (digits n) = Suc k"
proof (induction k arbitrary: n)
  case 0
  then show ?case by (subst digits.simps) simp
next
  case (Suc k)
  have "10 ^ k \<le> n div 10" using Suc.prems(1) by (simp add: less_eq_div_iff_mult_less_eq)
  moreover have "n div 10 < 10 ^ Suc k" using Suc.prems(2) by (simp add: div_less_iff_less_mult)
  ultimately have "length (digits (n div 10)) = Suc k" by (rule Suc.IH)
  moreover have "(10::nat) * 1 \<le> 10 * 10 ^ k" by (rule mult_le_mono2) simp
  with Suc.prems(1) have "\<not> n < 10" unfolding power_Suc by linarith
  ultimately show ?case by (subst digits.simps) simp
qed

lemma excess_bits_bounds:
  "x < 2 ^ (53 + excess_bits x) \<and> (0 < excess_bits x \<longrightarrow> 2 ^ (52 + excess_bits x) \<le> x)"
proof (induction x rule: excess_bits.induct)
  case (1 x)
  show ?case
  proof (cases "x < 9007199254740992")
    case True
    then show ?thesis by (subst excess_bits.simps, subst (2) excess_bits.simps, subst (3) excess_bits.simps) simp
  next
    case False
    note ih = 1[OF False]
    have e: "excess_bits x = Suc (excess_bits (x div 2))"
      using False by (subst excess_bits.simps) simp
    have a: "x < 2 ^ (53 + excess_bits x)"
    proof -
      from ih have "x div 2 < 2 ^ (53 + excess_bits (x div 2))" by simp
      then have "x < 2 * 2 ^ (53 + excess_bits (x div 2))" by linarith
      then show ?thesis by (simp only: e add_Suc_right power_Suc)
    qed
    have b: "2 ^ (52 + excess_bits x) \<le> x"
    proof (cases "0 < excess_bits (x div 2)")
      case True
      with ih have "2 ^ (52 + excess_bits (x div 2)) \<le> x div 2" by simp
      then have "2 * 2 ^ (52 + excess_bits (x div 2)) \<le> x" by linarith
      then show ?thesis by (simp only: e add_Suc_right power_Suc)
    next
      case False
      then have "excess_bits x = 1" using e by simp
      then show ?thesis using \<open>\<not> x < 9007199254740992\<close> by simp
    qed
    from a b show ?thesis by simp
  qed
qed

lemma round53_error:
  "2 * round53 x \<le> 2 * x + 2 ^ excess_bits x \<and> (excess_bits x = 0 \<longrightarrow> round53 x = x)"
proof (cases "excess_bits x = 0")
  case True
  then show ?thesis by (simp add: round53_def)
next
  case False
  define d where "d = excess_bits x"
  define q where "q = x div 2 ^ d"
  define rem where "rem = x mod 2 ^ d"
  have x: "x = q * 2 ^ d + rem" unfolding q_def rem_def by (rule div_mult_mod_eq[symmetric])
  have "round53 x = (if 2 ^ d < 2 * rem \<or> (2 * rem = 2 ^ d \<and> odd q) then (q + 1) * 2 ^ d else q * 2 ^ d)"
    using False by (simp add: round53_def Let_def d_def q_def rem_def)
  then have "2 * round53 x \<le> 2 * x + 2 ^ d"
    by (subst (2) x) (auto simp: algebra_simps)
  then show ?thesis using False by (simp add: d_def)
qed

lemma double_product_below:
  assumes "m < 2 ^ 53" "m < 2 ^ k" "0 < n"
  shows "round53 (m * n) div 2 ^ k < n"
proof -
  define x where "x = m * n"
  define d where "d = excess_bits x"
  have "round53 x < n * 2 ^ k"
  proof (cases "d = 0")
    case True
    then have "round53 x = x" using round53_error[of x] by (simp add: d_def)
    moreover have "m * n < 2 ^ k * n" using assms(2,3) by simp
    ultimately show ?thesis by (simp add: x_def mult.commute)
  next
    case False
    then have "2 ^ (52 + d) \<le> x" using excess_bits_bounds[of x] by (simp add: d_def)
    moreover have "x < 2 ^ 53 * n" using assms(1,3) by (simp add: x_def)
    ultimately have "(2::nat) ^ (52 + d) < 2 ^ 53 * n" by linarith
    then have "(2::nat) ^ 52 * 2 ^ d < 2 ^ 52 * (2 * n)" by (simp add: power_add)
    then have dn: "2 ^ d < 2 * n" by simp
    have "Suc m \<le> 2 ^ k" using assms(2) by simp
    then have "Suc m * n \<le> 2 ^ k * n" by (rule mult_le_mono1)
    then have mk: "x + n \<le> n * 2 ^ k" by (simp add: x_def mult.commute)
    have "2 * round53 x \<le> 2 * x + 2 ^ d" using round53_error[of x] by (simp add: d_def)
    with dn mk show ?thesis by linarith
  qed
  then show ?thesis by (simp add: x_def less_mult_imp_div_less)
qed

lemma pinCode_bounds:
  assumes "0 < L" "m < 2 ^ 53" "m < 2 ^ k"
  shows "10 ^ nat (L - 1) \<le> pinCode L (m, k)" "pinCode L (m, k) \<le> 10 ^ nat L - 1"
proof -
  define n :: nat where "n = 9 * 10 ^ nat (L - 1)"
  have S: "nat L = Suc (nat (L - 1))" using assms(1) by simp
  have "(10::int) ^ nat L - 1 - 10 ^ nat (L - 1) + 1 = int n"
    by (simp add: S n_def)
  then have p: "pinCode L (m, k) = int (round53 (m * n) div 2 ^ k) + 10 ^ nat (L - 1)"
    unfolding pinCode_def Let_def by simp
  have "0 < n" by (simp add: n_def)
  from double_product_below[OF assms(2,3) this]
  have f: "int (round53 (m * n) div 2 ^ k) < int n" by simp
  show "10 ^ nat (L - 1) \<le> pinCode L (m, k)" using p by simp
  have "int n = 10 ^ nat L - 10 ^ nat (L - 1)" by (simp add: S n_def)
  with f show "pinCode L (m, k) \<le> 10 ^ nat L - 1" using p by simp
qed

lemma toString_length:
  assumes "0 < L" "m < 2 ^ 53" "m < 2 ^ k"
  shows "length (toString (pinCode L (m, k))) = nat L"
proof -
  note b = pinCode_bounds[OF assms]
  have S: "nat L = Suc (nat (L - 1))" using assms(1) by simp
  have "(0::int) \<le> 10 ^ nat (L - 1)" by simp
  with b(1) have pos: "0 \<le> pinCode L (m, k)" by linarith
  have "(10::nat) ^ nat (L - 1) \<le> nat (pinCode L (m, k))"
    using b(1) pos by (simp add: le_nat_iff)
  moreover have "nat (pinCode L (m, k)) < 10 ^ Suc (nat (L - 1))"
    using b(2) pos S by (simp add: nat_less_iff)
  ultimately have "length (digits (nat (pinCode L (m, k)))) = Suc (nat (L - 1))"
    by (rule digits_length)
  then show ?thesis using pos S by (simp add: toString_def)
qed

text \<open>
  Examples: the random number 1/2 (the double with significand \<open>2 ^ 52\<close>), and a
  product that is rounded up to 4.
\<close>

lemma excess_bits_half: "excess_bits 40532396646334464000 = 13"
  by (simp add: excess_bits.simps)

lemma round53_half: "round53 40532396646334464000 = 40532396646334464000"
  by (simp add: round53_def excess_bits_half)

lemma ex_pinCode: "toString (pinCode 4 (4503599627370496, 53)) = ''5500''"
  by (simp add: toString_def pinCode_def round53_half digits.simps)

lemma excess_bits_rounded: "excess_bits 18014398509481983 = 1"
  by (simp add: excess_bits.simps)

lemma ex_rounded_pinCode: "pinCode 1 (2001599834386887, 52) = 5"
  by (simp add: pinCode_def round53_def excess_bits_rounded)

section \<open>Creating, reading and updating tracked requests\<close>

text \<open>
  C1. For every user data and every option record, once
  \<^verbatim>\<open>createIssuanceRequest\<close> (kind \<^verbatim>\<open>issuance\<close>) or
  \<^verbatim>\<open>createVerificationRequest\<close> (kind \<^verbatim>\<open>verification\<close>) has returned an
  identifier, the status endpoint called with that identifier right afterwards
  answers 200 with status \<^verbatim>\<open>request_created\<close>, the kind of the service as
  type, and the time of the creation as \<^verbatim>\<open>created\<close>.
\<close>

theorem create_then_get:
  "(createIssuanceRequest L sv store user_data = (store', calls, Inr res) \<longrightarrow>
      issue_request_status store' (requestId res) =
        (store', Response 200 (Obj [
           (''success'', Bool True),
           (''requestId'', Str (requestId res)),
           (''status'', Str ''request_created''),
           (''type'', Str ''issuance''),
           (''created'', Date (now sv)),
           (''pin'', (case result_pin res of None \<Rightarrow> Null | Some p \<Rightarrow> Str p))])))
   \<and> (createVerificationRequest sv vstore opts = (vstore', vcalls, Inr vres) \<longrightarrow>
      verify_request_status vstore' (requestId vres) =
        (vstore', Response 200 (Obj [
           (''success'', Bool True),
           (''requestId'', Str (requestId vres)),
           (''status'', Str ''request_created''),
           (''type'', Str ''verification''),
           (''created'', Date (now sv)),
           (''verifiedCredential'', Null),
           (''faceCheckResult'', Null)])))"
proof (intro conjI impI)
  assume "createIssuanceRequest L sv store user_data = (store', calls, Inr res)"
  then show "issue_request_status store' (requestId res) =
        (store', Response 200 (Obj [
           (''success'', Bool True),
           (''requestId'', Str (requestId res)),
           (''status'', Str ''request_created''),
           (''type'', Str ''issuance''),
           (''created'', Date (now sv)),
           (''pin'', (case result_pin res of None \<Rightarrow> Null | Some p \<Rightarrow> Str p))]))"
    by (auto simp: createIssuanceRequest_def issue_request_status_def Let_def
             split: prod.splits sum.splits if_splits option.splits)
next
  assume "createVerificationRequest sv vstore opts = (vstore', vcalls, Inr vres)"
  then show "verify_request_status vstore' (requestId vres) =
        (vstore', Response 200 (Obj [
           (''success'', Bool True),
           (''requestId'', Str (requestId vres)),
           (''status'', Str ''request_created''),
           (''type'', Str ''verification''),
           (''created'', Date (now sv)),
           (''verifiedCredential'', Null),
           (''faceCheckResult'', Null)]))"
    by (auto simp: createVerificationRequest_def verify_request_status_def or_null_def Let_def
             split: prod.splits sum.splits if_splits option.splits)
qed

text \<open>
  With the example services, both services create the request \<open>r1\<close> in an empty
  store, and the status endpoint then reports it as created.
\<close>

theorem create_then_get_witness:
  "createIssuanceRequest 4 ex_services Map.empty ex_profile =
     ([''r1'' \<mapsto> ex_issuance],
      [AcquireToken ''3db474b9-6a0c-4840-96ac-1fceb342124f/.default'',
       PostIssuance (Str ''token'') ''r1'' (Some (''5500'', 4)) ex_profile],
      Inr \<lparr>requestId = ''r1'', url = Str ''openid-vc://request'', expiry = Num 1700000000,
           qrCode = Str ''data:image/png;base64,AAAA'', result_pin = Some ''5500''\<rparr>)
   \<and> issue_request_status [''r1'' \<mapsto> ex_issuance] ''r1'' =
     ([''r1'' \<mapsto> ex_issuance], Response 200 (Obj [
        (''success'', Bool True),
        (''requestId'', Str ''r1''),
        (''status'', Str ''request_created''),
        (''type'', Str ''issuance''),
        (''created'', Date 1000),
        (''pin'', Str ''5500'')]))
   \<and> createVerificationRequest ex_services Map.empty ex_options =
     ([''r1'' \<mapsto> ex_verification],
      [AcquireToken ''3db474b9-6a0c-4840-96ac-1fceb342124f/.default'',
       PostPresentation (Str ''token'') ''r1'' False],
      Inr \<lparr>requestId = ''r1'', url = Str ''openid-vc://request'', expiry = Num 1700000000,
           qrCode = Str ''data:image/png;base64,AAAA'', result_pin = None\<rparr>)
   \<and> verify_request_status [''r1'' \<mapsto> ex_verification] ''r1'' =
     ([''r1'' \<mapsto> ex_verification], Response 200 (Obj [
        (''success'', Bool True),
        (''requestId'', Str ''r1''),
        (''status'', Str ''request_created''),
        (''type'', Str ''verification''),
        (''created'', Date 1000),
        (''verifiedCredential'', Null),
        (''faceCheckResult'', Null)]))"
proof -
  have h1: "createIssuanceRequest 4 ex_services Map.empty ex_profile =
     ([''r1'' \<mapsto> ex_issuance],
      [AcquireToken ''3db474b9-6a0c-4840-96ac-1fceb342124f/.default'',
       PostIssuance (Str ''token'') ''r1'' (Some (''5500'', 4)) ex_profile],
      Inr \<lparr>requestId = ''r1'', url = Str ''openid-vc://request'', expiry = Num 1700000000,
           qrCode = Str ''data:image/png;base64,AAAA'', result_pin = Some ''5500''\<rparr>)"
    by (simp add: createIssuanceRequest_def getAccessToken_def issuance_pin_def ex_pinCode Let_def
          ex_services_def ex_issuance_def ex_reply_def)
  have h2: "createVerificationRequest ex_services Map.empty ex_options =
     ([''r1'' \<mapsto> ex_verification],
      [AcquireToken ''3db474b9-6a0c-4840-96ac-1fceb342124f/.default'',
       PostPresentation (Str ''token'') ''r1'' False],
      Inr \<lparr>requestId = ''r1'', url = Str ''openid-vc://request'', expiry = Num 1700000000,
           qrCode = Str ''data:image/png;base64,AAAA'', result_pin = None\<rparr>)"
    by (simp add: createVerificationRequest_def getAccessToken_def Let_def
          ex_services_def ex_verification_def ex_reply_def ex_options_def)
  have n: "now ex_services = 1000" by (simp add: ex_services_def)
  from create_then_get[where L = 4 and sv = ex_services and store = Map.empty
         and user_data = ex_profile and store' = "[''r1'' \<mapsto> ex_issuance]"
         and calls = "[AcquireToken ''3db474b9-6a0c-4840-96ac-1fceb342124f/.default'',
                       PostIssuance (Str ''token'') ''r1'' (Some (''5500'', 4)) ex_profile]"
         and res = "\<lparr>requestId = ''r1'', url = Str ''openid-vc://request'', expiry = Num 1700000000,
                       qrCode = Str ''data:image/png;base64,AAAA'', result_pin = Some ''5500''\<rparr>"
         and vstore = Map.empty and opts = ex_options
         and vstore' = "[''r1'' \<mapsto> ex_verification]"
         and vcalls = "[AcquireToken ''3db474b9-6a0c-4840-96ac-1fceb342124f/.default'',
                        PostPresentation (Str ''token'') ''r1'' False]"
         and vres = "\<lparr>requestId = ''r1'', url = Str ''openid-vc://request'', expiry = Num 1700000000,
                       qrCode = Str ''data:image/png;base64,AAAA'', result_pin = None\<rparr>"]
       h1 h2 n
  show ?thesis by simp
qed

text \<open>
  C4. For every identifier that has no entry in the store, whatever string it is,
  the status endpoint answers 404 with the body
  \<^verbatim>\<open>{success: false, error: "Request not found"}\<close> and leaves the store as it
  was, in both services.
\<close>

theorem unknown_status_not_found:
  "(store k = None \<longrightarrow> issue_request_status store k =
       (store, Response 404 (Obj [(''success'', Bool False), (''error'', Str ''Request not found'')])))
   \<and> (vstore k = None \<longrightarrow> verify_request_status vstore k =
       (vstore, Response 404 (Obj [(''success'', Bool False), (''error'', Str ''Request not found'')])))"
  by (simp add: issue_request_status_def verify_request_status_def not_found_def)

text \<open>The string \<open>not-a-uuid\<close> is looked up like any other and is not found.\<close>

theorem unknown_status_not_found_witness:
  "[''r1'' \<mapsto> ex_issuance] ''not-a-uuid'' = None
   \<and> issue_request_status [''r1'' \<mapsto> ex_issuance] ''not-a-uuid'' =
       ([''r1'' \<mapsto> ex_issuance],
        Response 404 (Obj [(''success'', Bool False), (''error'', Str ''Request not found'')]))
   \<and> [''r1'' \<mapsto> ex_verification] ''not-a-uuid'' = None
   \<and> verify_request_status [''r1'' \<mapsto> ex_verification] ''not-a-uuid'' =
       ([''r1'' \<mapsto> ex_verification],
        Response 404 (Obj [(''success'', Bool False), (''error'', Str ''Request not found'')]))"
proof -
  have h1: "[''r1'' \<mapsto> ex_issuance] ''not-a-uuid'' = None" by simp
  have h2: "[''r1'' \<mapsto> ex_verification] ''not-a-uuid'' = None" by simp
  from unknown_status_not_found[of "[''r1'' \<mapsto> ex_issuance]" "''not-a-uuid''"
         "[''r1'' \<mapsto> ex_verification]"] h1 h2
  show ?thesis by blast
qed





text \<open>
  C8. Every callback leaves the set of identifiers and every entry other than
  its own as they were, and changes in its own entry only \<^verbatim>\<open>status\<close> and
  \<^verbatim>\<open>updated\<close> and, in the verifying service, the result fields
  \<^verbatim>\<open>verifiedCredential\<close> and \<^verbatim>\<open>faceCheckResult\<close>: the type, the creation
  time, the platform's reply, the user data and the pin, or the options, are
  those of the creation.
\<close>

theorem update_frame:
  "(request_callback t store b = (store', out) \<longrightarrow>
      dom store' = dom store
    \<and> (\<forall>k. Str k \<noteq> getprop b ''state'' \<longrightarrow> store' k = store k)
    \<and> (\<forall>k r. store k = Some r \<longrightarrow>
         (\<exists>r'. store' k = Some r' \<and> r' = r\<lparr>status := status r', updated := updated r'\<rparr>
            \<and> type r' = type r \<and> created r' = created r \<and> data r' = data r
            \<and> userData r' = userData r \<and> pin r' = pin r)))
   \<and> (verification_callback strnum t vstore b = (vstore', vout) \<longrightarrow>
      dom vstore' = dom vstore
    \<and> (\<forall>k. Str k \<noteq> getprop b ''state'' \<longrightarrow> vstore' k = vstore k)
    \<and> (\<forall>k r. vstore k = Some r \<longrightarrow>
         (\<exists>r'. vstore' k = Some r' \<and>
            r' = r\<lparr>status := status r', updated := updated r',
                   verifiedCredential := verifiedCredential r',
                   faceCheckResult := faceCheckResult r'\<rparr>
            \<and> type r' = type r \<and> created r' = created r \<and> data r' = data r
            \<and> options r' = options r)))"
proof (intro conjI impI allI)
  assume a: "request_callback t store b = (store', out)"
  show "dom store' = dom store" by (rule request_callback_frame(1)[OF a])
  show "\<And>k. Str k \<noteq> getprop b ''state'' \<Longrightarrow> store' k = store k"
    by (rule request_callback_frame(2)[OF a])
  fix k r assume "store k = Some r"
  from request_callback_frame(3)[OF a this] obtain r' where
    r': "store' k = Some r'" "r' = r\<lparr>status := status r', updated := updated r'\<rparr>" by blast
  have "type r' = type r \<and> created r' = created r \<and> data r' = data r
            \<and> userData r' = userData r \<and> pin r' = pin r"
    by (subst r'(2), simp)+
  with r' show "\<exists>r'. store' k = Some r' \<and> r' = r\<lparr>status := status r', updated := updated r'\<rparr>
            \<and> type r' = type r \<and> created r' = created r \<and> data r' = data r
            \<and> userData r' = userData r \<and> pin r' = pin r" by blast
next
  assume a: "verification_callback strnum t vstore b = (vstore', vout)"
  show "dom vstore' = dom vstore" by (rule verification_callback_frame(1)[OF a])
  show "\<And>k. Str k \<noteq> getprop b ''state'' \<Longrightarrow> vstore' k = vstore k"
    by (rule verification_callback_frame(2)[OF a])
  fix k r assume "vstore k = Some r"
  from verification_callback_frame(3)[OF a this] obtain r' where
    r': "vstore' k = Some r'"
        "r' = r\<lparr>status := status r', updated := updated r',
                verifiedCredential := verifiedCredential r',
                faceCheckResult := faceCheckResult r'\<rparr>" by blast
  have "type r' = type r \<and> created r' = created r \<and> data r' = data r
            \<and> options r' = options r"
    by (subst r'(2), simp)+
  with r' show "\<exists>r'. vstore' k = Some r' \<and>
            r' = r\<lparr>status := status r', updated := updated r',
                   verifiedCredential := verifiedCredential r',
                   faceCheckResult := faceCheckResult r'\<rparr>
            \<and> type r' = type r \<and> created r' = created r \<and> data r' = data r
            \<and> options r' = options r" by blast
qed

text \<open>
  A successful issuance callback and a verified presentation with a face check:
  the entries keep their type, creation time, user data, pin and options.
\<close>

theorem update_frame_witness:
  "request_callback 2000 [''r1'' \<mapsto> ex_issuance]
       (Obj [(''state'', Str ''r1''), (''code'', Str ''issuance_successful'')]) =
     ([''r1'' \<mapsto> ex_issuance\<lparr>status := Str ''issuance_successful'', updated := Some 2000\<rparr>],
      Inr (Response 200 (Obj [(''message'', Str ''Callback received'')])))
   \<and> [''r1'' \<mapsto> ex_issuance] ''r1'' = Some ex_issuance
   \<and> (\<exists>r'. [''r1'' \<mapsto> ex_issuance\<lparr>status := Str ''issuance_successful'', updated := Some 2000\<rparr>] ''r1''
              = Some r'
         \<and> type r' = ''issuance'' \<and> created r' = 1000 \<and> data r' = ex_reply
         \<and> userData r' = ex_profile \<and> pin r' = Some ''5500'')
   \<and> verification_callback (\<lambda>s. None) 2000 [''r1'' \<mapsto> ex_verification]
       (Obj [(''state'', Str ''r1''), (''code'', Str ''presentation_verified''),
             (''verifiedCredentialsData'', Arr [ex_credential])]) =
     ([''r1'' \<mapsto> ex_verification\<lparr>status := Str ''presentation_verified'', updated := Some 2000,
         verifiedCredential := Some (Obj [
           (''type'', Arr [Str ''VerifiableCredential'', Str ''VerifiedEmployee'']),
           (''issuer'', Str ''did:web:example.com''),
           (''claims'', Obj [(''displayName'', Str ''Jane Doe'')]),
           (''credentialSubject'', Undefined)]),
         faceCheckResult := Some (Obj [(''faceCheckPassed'', Bool True), (''confidence'', Num 86)])\<rparr>],
      Inr (Response 200 (Obj [(''message'', Str ''Verification callback received'')])))
   \<and> [''r1'' \<mapsto> ex_verification] ''r1'' = Some ex_verification
   \<and> (\<exists>r'. [''r1'' \<mapsto> ex_verification\<lparr>status := Str ''presentation_verified'', updated := Some 2000,
         verifiedCredential := Some (Obj [
           (''type'', Arr [Str ''VerifiableCredential'', Str ''VerifiedEmployee'']),
           (''issuer'', Str ''did:web:example.com''),
           (''claims'', Obj [(''displayName'', Str ''Jane Doe'')]),
           (''credentialSubject'', Undefined)]),
         faceCheckResult := Some (Obj [(''faceCheckPassed'', Bool True), (''confidence'', Num 86)])\<rparr>] ''r1''
              = Some r'
         \<and> type r' = ''verification'' \<and> created r' = 1000 \<and> data r' = ex_reply
         \<and> options r' = ex_options)"
proof -
  let ?i = "[''r1'' \<mapsto> ex_issuance\<lparr>status := Str ''issuance_successful'', updated := Some 2000\<rparr>]"
  let ?v = "[''r1'' \<mapsto> ex_verification\<lparr>status := Str ''presentation_verified'', updated := Some 2000,
         verifiedCredential := Some (Obj [
           (''type'', Arr [Str ''VerifiableCredential'', Str ''VerifiedEmployee'']),
           (''issuer'', Str ''did:web:example.com''),
           (''claims'', Obj [(''displayName'', Str ''Jane Doe'')]),
           (''credentialSubject'', Undefined)]),
         faceCheckResult := Some (Obj [(''faceCheckPassed'', Bool True), (''confidence'', Num 86)])\<rparr>]"
  have h1: "request_callback 2000 [''r1'' \<mapsto> ex_issuance]
       (Obj [(''state'', Str ''r1''), (''code'', Str ''issuance_successful'')]) =
     (?i, Inr (Response 200 (Obj [(''message'', Str ''Callback received'')])))"
    by (simp add: request_callback_def)
  have h2: "verification_callback (\<lambda>s. None) 2000 [''r1'' \<mapsto> ex_verification]
       (Obj [(''state'', Str ''r1''), (''code'', Str ''presentation_verified''),
             (''verifiedCredentialsData'', Arr [ex_credential])]) =
     (?v, Inr (Response 200 (Obj [(''message'', Str ''Verification callback received'')])))"
    by (simp add: verification_callback_def gt_zero_def ex_credential_def)
  have k1: "[''r1'' \<mapsto> ex_issuance] ''r1'' = Some ex_issuance"
    and k2: "[''r1'' \<mapsto> ex_verification] ''r1'' = Some ex_verification" by simp_all
  have e: "type ex_issuance = ''issuance''" "created ex_issuance = 1000" "data ex_issuance = ex_reply"
    "userData ex_issuance = ex_profile" "pin ex_issuance = Some ''5500''"
    "type ex_verification = ''verification''" "created ex_verification = 1000"
    "data ex_verification = ex_reply" "options ex_verification = ex_options"
    by (simp_all add: ex_issuance_def ex_verification_def)
  from update_frame[where t = 2000 and store = "[''r1'' \<mapsto> ex_issuance]"
        and b = "Obj [(''state'', Str ''r1''), (''code'', Str ''issuance_successful'')]"
        and store' = ?i, THEN conjunct1, rule_format, OF h1, THEN conjunct2, THEN conjunct2,
        rule_format, OF k1]
  have g1: "\<exists>r'. ?i ''r1'' = Some r'
         \<and> type r' = ''issuance'' \<and> created r' = 1000 \<and> data r' = ex_reply
         \<and> userData r' = ex_profile \<and> pin r' = Some ''5500''"
    unfolding e by blast
  from update_frame[where t = 2000 and vstore = "[''r1'' \<mapsto> ex_verification]"
        and strnum = "\<lambda>s. None"
        and b = "Obj [(''state'', Str ''r1''), (''code'', Str ''presentation_verified''),
             (''verifiedCredentialsData'', Arr [ex_credential])]"
        and vstore' = ?v, THEN conjunct2, rule_format, OF h2, THEN conjunct2, THEN conjunct2,
        rule_format, OF k2]
  have g2: "\<exists>r'. ?v ''r1'' = Some r'
         \<and> type r' = ''verification'' \<and> created r' = 1000 \<and> data r' = ex_reply
         \<and> options r' = ex_options"
    unfolding e by blast
  from h1 h2 k1 k2 g1 g2 show ?thesis by blast
qed

section \<open>Attaching the result\<close>

text \<open>
  The success check of the verifying service. A callback whose status is
  \<^verbatim>\<open>presentation_verified\<close> and whose \<^verbatim>\<open>verifiedCredentialsData\<close> is
  non-empty with a first entry that is not \<^verbatim>\<open>null\<close> attaches
  \<^verbatim>\<open>verifiedCredential\<close> and, when the entry has face-check data,
  \<^verbatim>\<open>faceCheckResult\<close>, and the status endpoint returns them; a callback with
  any other status changes the status and the time only, as every callback of the
  issuing service does.
\<close>

lemma result_attached:
  "(vstore k = Some r \<and> \<not> nullish b \<and> getprop b ''state'' = Str k
      \<and> getprop b ''code'' = Str ''presentation_verified''
      \<and> truthy (getprop b ''verifiedCredentialsData'')
      \<and> gt_zero strnum (getprop (getprop b ''verifiedCredentialsData'') ''length'')
      \<and> \<not> nullish (elem0 (getprop b ''verifiedCredentialsData'')) \<longrightarrow>
     (let cd = elem0 (getprop b ''verifiedCredentialsData'');
          fc = getprop cd ''faceCheck'';
          vc = Obj [(''type'', getprop cd ''type''), (''issuer'', getprop cd ''issuer''),
                    (''claims'', getprop cd ''claims''),
                    (''credentialSubject'', getprop cd ''credentialSubject'')];
          fr = (if truthy fc
                then Some (Obj [(''faceCheckPassed'', getprop fc ''faceCheckPassed''),
                                (''confidence'', getprop fc ''confidence'')])
                else faceCheckResult r);
          r' = r\<lparr>status := Str ''presentation_verified'', updated := Some t,
                   verifiedCredential := Some vc, faceCheckResult := fr\<rparr>
      in verification_callback strnum t vstore b =
           (vstore(k \<mapsto> r'),
            Inr (Response 200 (Obj [(''message'', Str ''Verification callback received'')])))
       \<and> verify_request_status (vstore(k \<mapsto> r')) k =
           (vstore(k \<mapsto> r'), Response 200 (Obj [
              (''success'', Bool True),
              (''requestId'', Str k),
              (''status'', Str ''presentation_verified''),
              (''type'', Str (type r)),
              (''created'', Date (created r)),
              (''verifiedCredential'', vc),
              (''faceCheckResult'', or_null fr)]))))
   \<and> (vstore k = Some r \<and> \<not> nullish b \<and> getprop b ''state'' = Str k
      \<and> getprop b ''code'' \<noteq> Str ''presentation_verified'' \<longrightarrow>
     verification_callback strnum t vstore b =
       (vstore(k \<mapsto> r\<lparr>status := getprop b ''code'', updated := Some t\<rparr>),
        Inr (Response 200 (Obj [(''message'', Str ''Verification callback received'')]))))
   \<and> (store k = Some i \<and> \<not> nullish b \<and> getprop b ''state'' = Str k \<longrightarrow>
     request_callback t store b =
       (store(k \<mapsto> i\<lparr>status := getprop b ''code'', updated := Some t\<rparr>),
        Inr (Response 200 (Obj [(''message'', Str ''Callback received'')]))))"
  by (simp add: verification_callback_def request_callback_def verify_request_status_def
        Let_def or_null_def)

text \<open>
  The verified presentation of Jane's credential with a passed face check; the
  same payload with the status \<open>presentation_error\<close>; and the same payload sent
  to the issuing service.
\<close>

lemma result_attached_example:
  "([''r1'' \<mapsto> ex_verification] ''r1'' = Some ex_verification
     \<and> truthy (Arr [ex_credential])
     \<and> gt_zero (\<lambda>s. None) (getprop (Arr [ex_credential]) ''length'')
     \<and> \<not> nullish (elem0 (Arr [ex_credential])))
   \<and> verification_callback (\<lambda>s. None) 2000 [''r1'' \<mapsto> ex_verification]
       (Obj [(''state'', Str ''r1''), (''code'', Str ''presentation_verified''),
             (''verifiedCredentialsData'', Arr [ex_credential])]) =
     ([''r1'' \<mapsto> ex_verification\<lparr>status := Str ''presentation_verified'', updated := Some 2000,
         verifiedCredential := Some (Obj [
           (''type'', Arr [Str ''VerifiableCredential'', Str ''VerifiedEmployee'']),
           (''issuer'', Str ''did:web:example.com''),
           (''claims'', Obj [(''displayName'', Str ''Jane Doe'')]),
           (''credentialSubject'', Undefined)]),
         faceCheckResult := Some (Obj [(''faceCheckPassed'', Bool True), (''confidence'', Num 86)])\<rparr>],
      Inr (Response 200 (Obj [(''message'', Str ''Verification callback received'')])))
   \<and> verify_request_status
       [''r1'' \<mapsto> ex_verification\<lparr>status := Str ''presentation_verified'', updated := Some 2000,
         verifiedCredential := Some (Obj [
           (''type'', Arr [Str ''VerifiableCredential'', Str ''VerifiedEmployee'']),
           (''issuer'', Str ''did:web:example.com''),
           (''claims'', Obj [(''displayName'', Str ''Jane Doe'')]),
           (''credentialSubject'', Undefined)]),
         faceCheckResult := Some (Obj [(''faceCheckPassed'', Bool True), (''confidence'', Num 86)])\<rparr>]
       ''r1'' =
     ([''r1'' \<mapsto> ex_verification\<lparr>status := Str ''presentation_verified'', updated := Some 2000,
         verifiedCredential := Some (Obj [
           (''type'', Arr [Str ''VerifiableCredential'', Str ''VerifiedEmployee'']),
           (''issuer'', Str ''did:web:example.com''),
           (''claims'', Obj [(''displayName'', Str ''Jane Doe'')]),
           (''credentialSubject'', Undefined)]),
         faceCheckResult := Some (Obj [(''faceCheckPassed'', Bool True), (''confidence'', Num 86)])\<rparr>],
      Response 200 (Obj [
        (''success'', Bool True),
        (''requestId'', Str ''r1''),
        (''status'', Str ''presentation_verified''),
        (''type'', Str ''verification''),
        (''created'', Date 1000),
        (''verifiedCredential'', Obj [
           (''type'', Arr [Str ''VerifiableCredential'', Str ''VerifiedEmployee'']),
           (''issuer'', Str ''did:web:example.com''),
           (''claims'', Obj [(''displayName'', Str ''Jane Doe'')]),
           (''credentialSubject'', Undefined)]),
        (''faceCheckResult'', Obj [(''faceCheckPassed'', Bool True), (''confidence'', Num 86)])]))
   \<and> verification_callback (\<lambda>s. None) 2000 [''r1'' \<mapsto> ex_verification]
       (Obj [(''state'', Str ''r1''), (''code'', Str ''presentation_error''),
             (''verifiedCredentialsData'', Arr [ex_credential])]) =
     ([''r1'' \<mapsto> ex_verification\<lparr>status := Str ''presentation_error'', updated := Some 2000\<rparr>],
      Inr (Response 200 (Obj [(''message'', Str ''Verification callback received'')])))
   \<and> [''r1'' \<mapsto> ex_issuance] ''r1'' = Some ex_issuance
   \<and> request_callback 2000 [''r1'' \<mapsto> ex_issuance]
       (Obj [(''state'', Str ''r1''), (''code'', Str ''issuance_successful''),
             (''verifiedCredentialsData'', Arr [ex_credential])]) =
     ([''r1'' \<mapsto> ex_issuance\<lparr>status := Str ''issuance_successful'', updated := Some 2000\<rparr>],
      Inr (Response 200 (Obj [(''message'', Str ''Callback received'')])))"
proof -
  let ?ok = "Obj [(''state'', Str ''r1''), (''code'', Str ''presentation_verified''),
             (''verifiedCredentialsData'', Arr [ex_credential])]"
  let ?err = "Obj [(''state'', Str ''r1''), (''code'', Str ''presentation_error''),
             (''verifiedCredentialsData'', Arr [ex_credential])]"
  let ?iss = "Obj [(''state'', Str ''r1''), (''code'', Str ''issuance_successful''),
             (''verifiedCredentialsData'', Arr [ex_credential])]"
  have p: "[''r1'' \<mapsto> ex_verification] ''r1'' = Some ex_verification
     \<and> truthy (Arr [ex_credential])
     \<and> gt_zero (\<lambda>s. None) (getprop (Arr [ex_credential]) ''length'')
     \<and> \<not> nullish (elem0 (Arr [ex_credential]))"
    by (simp add: gt_zero_def ex_credential_def)
  have h1: "[''r1'' \<mapsto> ex_verification] ''r1'' = Some ex_verification \<and> \<not> nullish ?ok
      \<and> getprop ?ok ''state'' = Str ''r1''
      \<and> getprop ?ok ''code'' = Str ''presentation_verified''
      \<and> truthy (getprop ?ok ''verifiedCredentialsData'')
      \<and> gt_zero (\<lambda>s. None) (getprop (getprop ?ok ''verifiedCredentialsData'') ''length'')
      \<and> \<not> nullish (elem0 (getprop ?ok ''verifiedCredentialsData''))"
    using p by simp
  have h2: "[''r1'' \<mapsto> ex_verification] ''r1'' = Some ex_verification \<and> \<not> nullish ?err
      \<and> getprop ?err ''state'' = Str ''r1''
      \<and> getprop ?err ''code'' \<noteq> Str ''presentation_verified''"
    by simp
  have h3: "[''r1'' \<mapsto> ex_issuance] ''r1'' = Some ex_issuance \<and> \<not> nullish ?iss
      \<and> getprop ?iss ''state'' = Str ''r1''"
    by simp
  note t1 = result_attached[where vstore = "[''r1'' \<mapsto> ex_verification]" and k = "''r1''"
      and r = ex_verification and b = ?ok and strnum = "\<lambda>s. None" and t = 2000,
      THEN conjunct1, rule_format, OF h1]
  note t2 = result_attached[where vstore = "[''r1'' \<mapsto> ex_verification]" and k = "''r1''"
      and r = ex_verification and b = ?err and strnum = "\<lambda>s. None" and t = 2000,
      THEN conjunct2, THEN conjunct1, rule_format, OF h2]
  note t3 = result_attached[where store = "[''r1'' \<mapsto> ex_issuance]" and k = "''r1''"
      and i = ex_issuance and b = ?iss and t = 2000,
      THEN conjunct2, THEN conjunct2, rule_format, OF h3]
  have f: "faceCheckResult ex_verification = None" "type ex_verification = ''verification''"
    "created ex_verification = 1000"
    by (simp_all add: ex_verification_def)
  from p t1 t2 t3 h3 show ?thesis
    by (simp add: Let_def or_null_def ex_credential_def f)
qed

text \<open>
  C5. The property: for a tracked verification request, a callback with status
  \<^verbatim>\<open>presentation_verified\<close> whose payload carries non-empty
  \<^verbatim>\<open>verifiedCredentialsData\<close> attaches the result, and the status endpoint
  then returns that status together with the result. The handler checks that the
  array is not empty, but not its first entry: for the non-empty array
  \<^verbatim>\<open>[null]\<close> the status is overwritten, reading
  \<^verbatim>\<open>credentialData.type\<close> throws, the handler ends with the TypeError
  instead of its answer 200, no result is attached, and the status endpoint
  reports \<^verbatim>\<open>presentation_verified\<close> with \<^verbatim>\<open>verifiedCredential: null\<close>.
\<close>

theorem null_credential_not_attached:
  "verification_callback (\<lambda>s. None) 2000 [''r1'' \<mapsto> ex_verification]
       (Obj [(''state'', Str ''r1''), (''code'', Str ''presentation_verified''),
             (''verifiedCredentialsData'', Arr [Null])])
     = ([''r1'' \<mapsto> ex_verification\<lparr>status := Str ''presentation_verified'', updated := Some 2000\<rparr>],
        Inl type_error)
   \<and> verify_request_status
        [''r1'' \<mapsto> ex_verification\<lparr>status := Str ''presentation_verified'', updated := Some 2000\<rparr>]
        ''r1''
     = ([''r1'' \<mapsto> ex_verification\<lparr>status := Str ''presentation_verified'', updated := Some 2000\<rparr>],
        Response 200 (Obj [
           (''success'', Bool True),
           (''requestId'', Str ''r1''),
           (''status'', Str ''presentation_verified''),
           (''type'', Str ''verification''),
           (''created'', Date 1000),
           (''verifiedCredential'', Null),
           (''faceCheckResult'', Null)]))"
  by (simp add: verification_callback_def verify_request_status_def ex_verification_def
        gt_zero_def or_null_def)

section \<open>The authentication gate\<close>

text \<open>
  C6. A request to \<^verbatim>\<open>GET /api/user\<close> or \<^verbatim>\<open>POST /api/issue-credential\<close>
  without the identity header (or with an empty one) is answered 401 with the
  fixed body \<^verbatim>\<open>{error, message}\<close>; the store is unchanged and no external
  call has been made. A request whose header decodes to a valid principal
  passes \<^verbatim>\<open>requireEasyAuth\<close>, which puts the authenticated user on the
  request, and the handler of the endpoint runs with that user.
\<close>

theorem auth_gate:
  "((clientPrincipal = None \<or> clientPrincipal = Some []) \<longrightarrow>
       get_api_user decode sv store clientPrincipal =
         (store, [], Response 401 (Obj [
            (''error'', Str ''Authentication required''),
            (''message'', Str ''Please sign in through Azure App Service authentication'')]))
     \<and> post_api_issue_credential decode encode L sv store clientPrincipal =
         (store, [], Response 401 (Obj [
            (''error'', Str ''Authentication required''),
            (''message'', Str ''Please sign in through Azure App Service authentication'')])))
   \<and> (clientPrincipal = Some h \<and> h \<noteq> [] \<and> decode h = Some decodedPrincipal
        \<and> valid_principal decodedPrincipal \<longrightarrow>
       (\<exists>user. requireEasyAuth decode clientPrincipal = Inr user
          \<and> isAuthenticated user
          \<and> userId user = getprop decodedPrincipal ''userId''
          \<and> userDetails user = getprop decodedPrincipal ''userDetails''
          \<and> get_api_user decode sv store clientPrincipal =
               (store, fst (api_user_handler sv user), snd (api_user_handler sv user))
          \<and> post_api_issue_credential decode encode L sv store clientPrincipal =
               issue_credential_handler encode L sv store user))"
proof (intro conjI impI)
  assume "clientPrincipal = None \<or> clientPrincipal = Some []"
  then have "parseEasyAuthUser decode clientPrincipal = None"
    by (auto simp: parseEasyAuthUser_def)
  then show "get_api_user decode sv store clientPrincipal =
         (store, [], Response 401 (Obj [
            (''error'', Str ''Authentication required''),
            (''message'', Str ''Please sign in through Azure App Service authentication'')]))"
    and "post_api_issue_credential decode encode L sv store clientPrincipal =
         (store, [], Response 401 (Obj [
            (''error'', Str ''Authentication required''),
            (''message'', Str ''Please sign in through Azure App Service authentication'')]))"
    by (simp_all add: get_api_user_def post_api_issue_credential_def requireEasyAuth_def)
next
  assume a: "clientPrincipal = Some h \<and> h \<noteq> [] \<and> decode h = Some decodedPrincipal
        \<and> valid_principal decodedPrincipal"
  then obtain user where u: "parseEasyAuthUser_try decodedPrincipal = Inr user"
    using parse_try_ok by blast
  have nn: "\<not> nullish decodedPrincipal"
    using a by (auto simp: valid_principal_def split: if_splits)
  have fields: "isAuthenticated user \<and> userId user = getprop decodedPrincipal ''userId''
      \<and> userDetails user = getprop decodedPrincipal ''userDetails''"
    using u nn by (auto simp: parseEasyAuthUser_try_def Let_def split: sum.splits)
  have "parseEasyAuthUser decode clientPrincipal = Some user"
    using a u by (simp add: parseEasyAuthUser_def)
  then have r: "requireEasyAuth decode clientPrincipal = Inr user"
    by (simp add: requireEasyAuth_def)
  show "\<exists>user. requireEasyAuth decode clientPrincipal = Inr user
          \<and> isAuthenticated user
          \<and> userId user = getprop decodedPrincipal ''userId''
          \<and> userDetails user = getprop decodedPrincipal ''userDetails''
          \<and> get_api_user decode sv store clientPrincipal =
               (store, fst (api_user_handler sv user), snd (api_user_handler sv user))
          \<and> post_api_issue_credential decode encode L sv store clientPrincipal =
               issue_credential_handler encode L sv store user"
    using r fields
    by (auto simp: get_api_user_def post_api_issue_credential_def split: prod.splits)
qed

text \<open>
  A request without the header, and a request whose header decodes to Jane's
  principal: the first is rejected, the second reaches the handlers, which answer
  200.
\<close>

theorem auth_gate_witness:
  "get_api_user (\<lambda>h. Some ex_principal) ex_services Map.empty None =
     (Map.empty, [], Response 401 (Obj [
        (''error'', Str ''Authentication required''),
        (''message'', Str ''Please sign in through Azure App Service authentication'')]))
   \<and> post_api_issue_credential (\<lambda>h. Some ex_principal) (\<lambda>b. ''photo'') 4 ex_services Map.empty None =
     (Map.empty, [], Response 401 (Obj [
        (''error'', Str ''Authentication required''),
        (''message'', Str ''Please sign in through Azure App Service authentication'')]))
   \<and> valid_principal ex_principal
   \<and> requireEasyAuth (\<lambda>h. Some ex_principal) (Some ''eyJ1c2VySWQiOiJ1MSJ9'') = Inr ex_user
   \<and> get_api_user (\<lambda>h. Some ex_principal) ex_services Map.empty (Some ''eyJ1c2VySWQiOiJ1MSJ9'') =
     (Map.empty, fst (api_user_handler ex_services ex_user), snd (api_user_handler ex_services ex_user))
   \<and> code (snd (api_user_handler ex_services ex_user)) = 200
   \<and> post_api_issue_credential (\<lambda>h. Some ex_principal) (\<lambda>b. ''photo'') 4 ex_services Map.empty
        (Some ''eyJ1c2VySWQiOiJ1MSJ9'') =
     issue_credential_handler (\<lambda>b. ''photo'') 4 ex_services Map.empty ex_user
   \<and> code (snd (snd (issue_credential_handler (\<lambda>b. ''photo'') 4 ex_services Map.empty ex_user))) = 200"
proof -
  let ?d = "\<lambda>h::string. Some ex_principal"
  let ?h = "''eyJ1c2VySWQiOiJ1MSJ9''"
  have v: "valid_principal ex_principal"
    by (simp add: valid_principal_def ex_principal_def)
  have p: "requireEasyAuth ?d (Some ?h) = Inr ex_user"
    by (simp add: requireEasyAuth_def parseEasyAuthUser_def parseEasyAuthUser_try_def
          findClaim_def or_else_def or_js_def Let_def ex_principal_def ex_user_def)
  have h2: "Some ?h = Some ?h \<and> ?h \<noteq> [] \<and> ?d ?h = Some ex_principal \<and> valid_principal ex_principal"
    using v by simp
  note t1 = auth_gate[where clientPrincipal = None and decode = ?d and sv = ex_services
      and store = Map.empty and encode = "\<lambda>b. ''photo''" and L = 4,
      THEN conjunct1, rule_format, OF disjI1, OF refl]
  note t2 = auth_gate[where clientPrincipal = "Some ?h" and h = ?h and decode = ?d
      and decodedPrincipal = ex_principal and sv = ex_services
      and store = Map.empty and encode = "\<lambda>b. ''photo''" and L = 4,
      THEN conjunct2, rule_format, OF h2]
  have c1: "code (snd (api_user_handler ex_services ex_user)) = 200"
    by (simp add: api_user_handler_def getUserProfile_def getGraphClient_def graph_get_def
          accessTokenProvider_def or_js_def Let_def ex_services_def ex_user_def)
  have c2: "code (snd (snd (issue_credential_handler (\<lambda>b. ''photo'') 4 ex_services Map.empty ex_user))) = 200"
    by (simp add: issue_credential_handler_def getUserProfile_def getGraphClient_def graph_get_def
          accessTokenProvider_def or_js_def or_else_def easyAuth_profile_def first_word_def rest_words_def
          getUserPhoto_def getUserPhoto_try_def photoSizes_def to_buffer_def
          createIssuanceRequest_def getAccessToken_def issuance_pin_def ex_pinCode Let_def
          ex_services_def ex_user_def ex_reply_def)
  from t1 t2 v p c1 c2 show ?thesis by auto
qed

section \<open>Failure of the primary operation\<close>

text \<open>
  C7. If the token of the request service cannot be acquired, or the platform
  refuses the posted request, the create endpoint of either service answers 500
  with the body \<^verbatim>\<open>{success: false, error, message}\<close>, the store is the store
  before the request, and the log holds at most one acquisition of that token and
  at most one post (none when there is no token): nothing is tried again.
\<close>

theorem create_failure:
  "(token_refused sv ''3db474b9-6a0c-4840-96ac-1fceb342124f/.default''
      \<or> (\<forall>c. isl (axios_post sv c)) \<longrightarrow>
     (\<exists>calls m. issue_credential_handler encode L sv store user =
          (store, calls, Response 500 (Obj [
             (''success'', Bool False),
             (''error'', Str m),
             (''message'', Str ''Failed to create credential issuance request'')]))
        \<and> length (filter is_post calls) \<le> 1 \<and> length (filter is_token calls) \<le> 1
        \<and> (token_refused sv ''3db474b9-6a0c-4840-96ac-1fceb342124f/.default''
             \<longrightarrow> filter is_post calls = [])))
   \<and> (token_refused sv ''3db474b9-6a0c-4840-96ac-1fceb342124f/.default''
      \<or> (\<forall>c. isl (axios_post sv c)) \<longrightarrow>
     (\<exists>calls m. post_api_verify_credential sv vstore reqbody =
          (vstore, calls, Response 500 (Obj [
             (''success'', Bool False),
             (''error'', Str m),
             (''message'', Str ''Failed to create credential verification request'')]))
        \<and> length (filter is_post calls) \<le> 1 \<and> length (filter is_token calls) \<le> 1
        \<and> (token_refused sv ''3db474b9-6a0c-4840-96ac-1fceb342124f/.default''
             \<longrightarrow> filter is_post calls = [])))"
proof (intro conjI impI)
  assume a: "token_refused sv ''3db474b9-6a0c-4840-96ac-1fceb342124f/.default''
      \<or> (\<forall>c. isl (axios_post sv c))"
  define upn where "upn = or_js (userPrincipalName user) (email user)"
  obtain l1 p where gp: "getUserProfile sv upn = (l1, p)" by (cases "getUserProfile sv upn")
  have l1: "filter is_post l1 = [] \<and> filter is_token l1 = []"
    using getUserProfile_log[of sv upn] gp by simp
  obtain l2 ph where ph: "getUserPhoto encode sv upn = (l2, ph)"
    by (cases "getUserPhoto encode sv upn")
  have l2: "filter is_post l2 = [] \<and> filter is_token l2 = []"
    using getUserPhoto_log[of encode sv upn] ph by simp
  show "\<exists>calls m. issue_credential_handler encode L sv store user =
          (store, calls, Response 500 (Obj [
             (''success'', Bool False),
             (''error'', Str m),
             (''message'', Str ''Failed to create credential issuance request'')]))
        \<and> length (filter is_post calls) \<le> 1 \<and> length (filter is_token calls) \<le> 1
        \<and> (token_refused sv ''3db474b9-6a0c-4840-96ac-1fceb342124f/.default''
             \<longrightarrow> filter is_post calls = [])"
  proof (cases "case p of Inr q \<Rightarrow> Inr q | Inl profileError \<Rightarrow> easyAuth_profile user")
    case (Inl e)
    then show ?thesis using gp l1
      by (auto simp: issue_credential_handler_def upn_def[symmetric] Let_def issue_failed_def
               split: sum.splits)
  next
    case (Inr prof)
    obtain x where x: "ph = Inr x"
      using ph by (cases ph) (auto simp: getUserPhoto_def split: prod.splits sum.splits)
    define prof' where
      "prof' = (case x of None \<Rightarrow> prof
                | Some p \<Rightarrow> if p \<noteq> [] then set_photo prof (Str p) else prof)"
    from createIssuanceRequest_fails[OF a, of L store prof'] obtain calls e where
      c: "createIssuanceRequest L sv store prof' = (store, calls, Inl e)"
         "length (filter is_post calls) \<le> 1" "length (filter is_token calls) \<le> 1"
         "token_refused sv ''3db474b9-6a0c-4840-96ac-1fceb342124f/.default''
            \<longrightarrow> filter is_post calls = []" by blast
    have "issue_credential_handler encode L sv store user = (store, l1 @ l2 @ calls, issue_failed e)"
      using gp ph Inr c(1) x
      by (auto simp: issue_credential_handler_def upn_def[symmetric] prof'_def[symmetric] Let_def
               split: sum.splits)
    then show ?thesis using l1 l2 c(2,3,4) by (auto simp: issue_failed_def)
  qed
next
  assume a: "token_refused sv ''3db474b9-6a0c-4840-96ac-1fceb342124f/.default''
      \<or> (\<forall>c. isl (axios_post sv c))"
  show "\<exists>calls m. post_api_verify_credential sv vstore reqbody =
          (vstore, calls, Response 500 (Obj [
             (''success'', Bool False),
             (''error'', Str m),
             (''message'', Str ''Failed to create credential verification request'')]))
        \<and> length (filter is_post calls) \<le> 1 \<and> length (filter is_token calls) \<le> 1
        \<and> (token_refused sv ''3db474b9-6a0c-4840-96ac-1fceb342124f/.default''
             \<longrightarrow> filter is_post calls = [])"
  proof (cases "nullish reqbody")
    case True
    then show ?thesis by (simp add: post_api_verify_credential_def verify_failed_def)
  next
    case False
    define opts where
      "opts = Obj [(''includeFaceCheck'',
          (if getprop reqbody ''includeFaceCheck'' = Undefined then Bool False
           else getprop reqbody ''includeFaceCheck''))]"
    from createVerificationRequest_fails[OF a, of vstore opts] obtain calls e where
      c: "createVerificationRequest sv vstore opts = (vstore, calls, Inl e)"
         "length (filter is_post calls) \<le> 1" "length (filter is_token calls) \<le> 1"
         "token_refused sv ''3db474b9-6a0c-4840-96ac-1fceb342124f/.default''
            \<longrightarrow> filter is_post calls = []" by blast
    then show ?thesis using False
      by (auto simp: post_api_verify_credential_def opts_def[symmetric] verify_failed_def Let_def)
  qed
qed

text \<open>
  Two runs of each endpoint against a store that holds \<open>r1\<close>. With an identity
  platform that gives no token to the request service, the issuing endpoint has
  asked the directory (one Graph token for each request) and tried the token
  once, and nothing was posted. With a platform that refuses every post, there is
  one token acquisition and one post. The answer is 500 with the message of the
  failure, and the store still holds \<open>r1\<close> only.
\<close>

theorem create_failure_witness:
  "token_refused ex_no_token ''3db474b9-6a0c-4840-96ac-1fceb342124f/.default''
   \<and> (\<forall>c. isl (axios_post ex_refusing c))
   \<and> issue_credential_handler (\<lambda>b. ''photo'') 4 ex_no_token [''r1'' \<mapsto> ex_issuance] ex_user =
       ([''r1'' \<mapsto> ex_issuance],
        [AcquireToken ''https://graph.microsoft.com/.default'',
         GraphUser (Str ''jane@example.com''),
         AcquireToken ''https://graph.microsoft.com/.default'',
         GraphPhotoSize (Str ''jane@example.com'') ''240x240'',
         AcquireToken ''https://graph.microsoft.com/.default'',
         GraphPhotoSize (Str ''jane@example.com'') ''120x120'',
         AcquireToken ''3db474b9-6a0c-4840-96ac-1fceb342124f/.default''],
        Response 500 (Obj [
          (''success'', Bool False),
          (''error'', Str ''Failed to create issuance request: Failed to acquire access token: invalid_client''),
          (''message'', Str ''Failed to create credential issuance request'')]))
   \<and> issue_credential_handler (\<lambda>b. ''photo'') 4 ex_refusing [''r1'' \<mapsto> ex_issuance] ex_user =
       ([''r1'' \<mapsto> ex_issuance],
        [AcquireToken ''https://graph.microsoft.com/.default'',
         GraphUser (Str ''jane@example.com''),
         AcquireToken ''https://graph.microsoft.com/.default'',
         GraphPhotoSize (Str ''jane@example.com'') ''240x240'',
         AcquireToken ''https://graph.microsoft.com/.default'',
         GraphPhotoSize (Str ''jane@example.com'') ''120x120'',
         AcquireToken ''3db474b9-6a0c-4840-96ac-1fceb342124f/.default'',
         PostIssuance (Str ''token'') ''r1'' (Some (''5500'', 4))
           (Obj [(''displayName'', Str ''Jane Doe''),
                 (''givenName'', Str ''Jane''), (''surname'', Str ''Doe''),
                 (''mail'', Str ''jane@example.com''),
                 (''jobTitle'', Str ''Employee''),
                 (''preferredLanguage'', Str ''en-US''),
                 (''userPrincipalName'', Str ''jane@example.com''),
                 (''photo'', Str ''photo'')])],
        Response 500 (Obj [
          (''success'', Bool False),
          (''error'', Str ''Failed to create issuance request: Request failed with status code 401''),
          (''message'', Str ''Failed to create credential issuance request'')]))
   \<and> post_api_verify_credential ex_no_token [''r1'' \<mapsto> ex_verification] (Obj []) =
       ([''r1'' \<mapsto> ex_verification],
        [AcquireToken ''3db474b9-6a0c-4840-96ac-1fceb342124f/.default''],
        Response 500 (Obj [
          (''success'', Bool False),
          (''error'', Str ''Failed to create verification request: Failed to acquire access token: invalid_client''),
          (''message'', Str ''Failed to create credential verification request'')]))
   \<and> post_api_verify_credential ex_refusing [''r1'' \<mapsto> ex_verification] (Obj []) =
       ([''r1'' \<mapsto> ex_verification],
        [AcquireToken ''3db474b9-6a0c-4840-96ac-1fceb342124f/.default'',
         PostPresentation (Str ''token'') ''r1'' False],
        Response 500 (Obj [
          (''success'', Bool False),
          (''error'', Str ''Failed to create verification request: Request failed with status code 401''),
          (''message'', Str ''Failed to create credential verification request'')]))
   \<and> (\<exists>calls m. issue_credential_handler (\<lambda>b. ''photo'') 4 ex_no_token [''r1'' \<mapsto> ex_issuance] ex_user =
          ([''r1'' \<mapsto> ex_issuance], calls, Response 500 (Obj [
             (''success'', Bool False),
             (''error'', Str m),
             (''message'', Str ''Failed to create credential issuance request'')]))
        \<and> length (filter is_post calls) \<le> 1 \<and> length (filter is_token calls) \<le> 1
        \<and> filter is_post calls = [])
   \<and> (\<exists>calls m. post_api_verify_credential ex_refusing [''r1'' \<mapsto> ex_verification] (Obj []) =
          ([''r1'' \<mapsto> ex_verification], calls, Response 500 (Obj [
             (''success'', Bool False),
             (''error'', Str m),
             (''message'', Str ''Failed to create credential verification request'')]))
        \<and> length (filter is_post calls) \<le> 1 \<and> length (filter is_token calls) \<le> 1)"
proof -
  have h1: "token_refused ex_no_token ''3db474b9-6a0c-4840-96ac-1fceb342124f/.default''"
    by (simp add: token_refused_def ex_no_token_def ex_services_def)
  have h2: "\<forall>c. isl (axios_post ex_refusing c)"
    by (simp add: ex_refusing_def)
  have e1: "issue_credential_handler (\<lambda>b. ''photo'') 4 ex_no_token [''r1'' \<mapsto> ex_issuance] ex_user =
       ([''r1'' \<mapsto> ex_issuance],
        [AcquireToken ''https://graph.microsoft.com/.default'',
         GraphUser (Str ''jane@example.com''),
         AcquireToken ''https://graph.microsoft.com/.default'',
         GraphPhotoSize (Str ''jane@example.com'') ''240x240'',
         AcquireToken ''https://graph.microsoft.com/.default'',
         GraphPhotoSize (Str ''jane@example.com'') ''120x120'',
         AcquireToken ''3db474b9-6a0c-4840-96ac-1fceb342124f/.default''],
        Response 500 (Obj [
          (''success'', Bool False),
          (''error'', Str ''Failed to create issuance request: Failed to acquire access token: invalid_client''),
          (''message'', Str ''Failed to create credential issuance request'')]))"
    by (simp add: issue_credential_handler_def getUserProfile_def getGraphClient_def graph_get_def
          accessTokenProvider_def or_js_def or_else_def easyAuth_profile_def first_word_def
          rest_words_def getUserPhoto_def getUserPhoto_try_def photoSizes_def to_buffer_def
          createIssuanceRequest_def getAccessToken_def Let_def
          issue_failed_def ex_no_token_def ex_services_def ex_user_def)
  have e2: "issue_credential_handler (\<lambda>b. ''photo'') 4 ex_refusing [''r1'' \<mapsto> ex_issuance] ex_user =
       ([''r1'' \<mapsto> ex_issuance],
        [AcquireToken ''https://graph.microsoft.com/.default'',
         GraphUser (Str ''jane@example.com''),
         AcquireToken ''https://graph.microsoft.com/.default'',
         GraphPhotoSize (Str ''jane@example.com'') ''240x240'',
         AcquireToken ''https://graph.microsoft.com/.default'',
         GraphPhotoSize (Str ''jane@example.com'') ''120x120'',
         AcquireToken ''3db474b9-6a0c-4840-96ac-1fceb342124f/.default'',
         PostIssuance (Str ''token'') ''r1'' (Some (''5500'', 4))
           (Obj [(''displayName'', Str ''Jane Doe''),
                 (''givenName'', Str ''Jane''), (''surname'', Str ''Doe''),
                 (''mail'', Str ''jane@example.com''),
                 (''jobTitle'', Str ''Employee''),
                 (''preferredLanguage'', Str ''en-US''),
                 (''userPrincipalName'', Str ''jane@example.com''),
                 (''photo'', Str ''photo'')])],
        Response 500 (Obj [
          (''success'', Bool False),
          (''error'', Str ''Failed to create issuance request: Request failed with status code 401''),
          (''message'', Str ''Failed to create credential issuance request'')]))"
    by (simp add: issue_credential_handler_def getUserProfile_def getGraphClient_def graph_get_def
          accessTokenProvider_def or_js_def or_else_def easyAuth_profile_def first_word_def
          rest_words_def getUserPhoto_def getUserPhoto_try_def photoSizes_def to_buffer_def
          createIssuanceRequest_def getAccessToken_def issuance_pin_def ex_pinCode Let_def
          issue_failed_def ex_refusing_def ex_services_def ex_user_def)
  have e3: "post_api_verify_credential ex_no_token [''r1'' \<mapsto> ex_verification] (Obj []) =
       ([''r1'' \<mapsto> ex_verification],
        [AcquireToken ''3db474b9-6a0c-4840-96ac-1fceb342124f/.default''],
        Response 500 (Obj [
          (''success'', Bool False),
          (''error'', Str ''Failed to create verification request: Failed to acquire access token: invalid_client''),
          (''message'', Str ''Failed to create credential verification request'')]))"
    by (simp add: post_api_verify_credential_def createVerificationRequest_def getAccessToken_def
          Let_def verify_failed_def ex_no_token_def ex_services_def)
  have e4: "post_api_verify_credential ex_refusing [''r1'' \<mapsto> ex_verification] (Obj []) =
       ([''r1'' \<mapsto> ex_verification],
        [AcquireToken ''3db474b9-6a0c-4840-96ac-1fceb342124f/.default'',
         PostPresentation (Str ''token'') ''r1'' False],
        Response 500 (Obj [
          (''success'', Bool False),
          (''error'', Str ''Failed to create verification request: Request failed with status code 401''),
          (''message'', Str ''Failed to create credential verification request'')]))"
    by (simp add: post_api_verify_credential_def createVerificationRequest_def getAccessToken_def
          Let_def verify_failed_def ex_refusing_def ex_services_def)
  note t1 = create_failure[where sv = ex_no_token and encode = "\<lambda>b. ''photo''" and L = 4
      and store = "[''r1'' \<mapsto> ex_issuance]" and user = ex_user,
      THEN conjunct1, rule_format, OF disjI1, OF h1]
  note t2 = create_failure[where sv = ex_refusing
      and vstore = "[''r1'' \<mapsto> ex_verification]" and reqbody = "Obj []",
      THEN conjunct2, rule_format, OF disjI2, OF h2]
  from t1 h1 have g1: "\<exists>calls m. issue_credential_handler (\<lambda>b. ''photo'') 4 ex_no_token [''r1'' \<mapsto> ex_issuance] ex_user =
          ([''r1'' \<mapsto> ex_issuance], calls, Response 500 (Obj [
             (''success'', Bool False),
             (''error'', Str m),
             (''message'', Str ''Failed to create credential issuance request'')]))
        \<and> length (filter is_post calls) \<le> 1 \<and> length (filter is_token calls) \<le> 1
        \<and> filter is_post calls = []"
    by blast
  from t2 have g2: "\<exists>calls m. post_api_verify_credential ex_refusing [''r1'' \<mapsto> ex_verification] (Obj []) =
          ([''r1'' \<mapsto> ex_verification], calls, Response 500 (Obj [
             (''success'', Bool False),
             (''error'', Str m),
             (''message'', Str ''Failed to create credential verification request'')]))
        \<and> length (filter is_post calls) \<le> 1 \<and> length (filter is_token calls) \<le> 1"
    by blast
  from h1 h2 e1 e2 e3 e4 g1 g2 show ?thesis by blast
qed

section \<open>The photo lookup\<close>

text \<open>
  C9. \<^verbatim>\<open>getUserPhoto\<close> always returns a value, never an error. With a
  working directory client it asks for the sizes 240x240, 120x120, 96x96, 64x64,
  48x48 in this order, each request after the Graph token it needs, and stops at
  the first request that succeeds: when that request yields a photo, the log is
  the requests up to it and the result is that photo, encoded. When no request of
  the directory succeeds, the five sizes and then the default photo have been
  asked for, and the result is \<^verbatim>\<open>null\<close>; it is \<^verbatim>\<open>null\<close> as well when
  there is no Graph token, after six attempts to get one, and when the client
  cannot be created.
\<close>

theorem photo_lookup:
  "(\<exists>l r. getUserPhoto encode sv upn = (l, Inr r))
   \<and> photoSizes = [''240x240'', ''120x120'', ''96x96'', ''64x64'', ''48x48'']
   \<and> (initWithMiddleware sv = None
        \<and> acquireTokenByClientCredential sv ''https://graph.microsoft.com/.default'' = Inr response
        \<and> \<not> nullish response
        \<and> photoSizes = pre @ sz # post
        \<and> (\<forall>s \<in> set pre. isl (graph_photo sv (GraphPhotoSize upn s)))
        \<and> graph_photo sv (GraphPhotoSize upn sz) = Inr p \<and> p \<noteq> PFalsy \<and> to_buffer p = Inr b \<longrightarrow>
      getUserPhoto encode sv upn =
        (concat (map (\<lambda>s. [AcquireToken ''https://graph.microsoft.com/.default'',
                             GraphPhotoSize upn s]) (pre @ [sz])),
         Inr (Some (encode b))))
   \<and> (initWithMiddleware sv = None
        \<and> acquireTokenByClientCredential sv ''https://graph.microsoft.com/.default'' = Inr response
        \<and> \<not> nullish response
        \<and> (\<forall>c. isl (graph_photo sv c)) \<longrightarrow>
      getUserPhoto encode sv upn =
        (concat (map (\<lambda>s. [AcquireToken ''https://graph.microsoft.com/.default'',
                             GraphPhotoSize upn s]) photoSizes)
           @ [AcquireToken ''https://graph.microsoft.com/.default'', GraphPhoto upn],
         Inr None))
   \<and> (initWithMiddleware sv = None
        \<and> token_refused sv ''https://graph.microsoft.com/.default'' \<longrightarrow>
      getUserPhoto encode sv upn =
        (replicate 6 (AcquireToken ''https://graph.microsoft.com/.default''), Inr None))
   \<and> (initWithMiddleware sv = Some e \<longrightarrow> getUserPhoto encode sv upn = ([], Inr None))"
proof (intro conjI impI)
  show "\<exists>l r. getUserPhoto encode sv upn = (l, Inr r)" by (rule getUserPhoto_returns)
next
  show "photoSizes = [''240x240'', ''120x120'', ''96x96'', ''64x64'', ''48x48'']"
    by (rule photoSizes_def)
next
  assume a: "initWithMiddleware sv = None
        \<and> acquireTokenByClientCredential sv ''https://graph.microsoft.com/.default'' = Inr response
        \<and> \<not> nullish response
        \<and> photoSizes = pre @ sz # post
        \<and> (\<forall>s \<in> set pre. isl (graph_photo sv (GraphPhotoSize upn s)))
        \<and> graph_photo sv (GraphPhotoSize upn sz) = Inr p \<and> p \<noteq> PFalsy \<and> to_buffer p = Inr b"
  then have c: "accessTokenProvider sv =
      ([AcquireToken ''https://graph.microsoft.com/.default''], Inr (getprop response ''accessToken''))"
    by (simp add: provider_ok)
  have "try_sizes (accessTokenProvider sv) sv upn photoSizes =
      (concat (map (\<lambda>s. [AcquireToken ''https://graph.microsoft.com/.default'']
                           @ [GraphPhotoSize upn s]) (pre @ [sz])), Some p)"
    unfolding c using a try_sizes_first_success[of pre sv upn sz p _ _ post] by simp
  then show "getUserPhoto encode sv upn =
        (concat (map (\<lambda>s. [AcquireToken ''https://graph.microsoft.com/.default'',
                             GraphPhotoSize upn s]) (pre @ [sz])),
         Inr (Some (encode b)))"
    using a by (simp add: getUserPhoto_def getUserPhoto_try_def getGraphClient_def)
next
  assume a: "initWithMiddleware sv = None
        \<and> acquireTokenByClientCredential sv ''https://graph.microsoft.com/.default'' = Inr response
        \<and> \<not> nullish response
        \<and> (\<forall>c. isl (graph_photo sv c))"
  then have c: "accessTokenProvider sv =
      ([AcquireToken ''https://graph.microsoft.com/.default''], Inr (getprop response ''accessToken''))"
    by (simp add: provider_ok)
  have t: "try_sizes (accessTokenProvider sv) sv upn photoSizes =
      (concat (map (\<lambda>s. [AcquireToken ''https://graph.microsoft.com/.default'']
                           @ [GraphPhotoSize upn s]) photoSizes), None)"
    unfolding c using a try_sizes_all_fail[of photoSizes sv upn] by simp
  from a obtain e where "graph_photo sv (GraphPhoto upn) = Inl e" by (auto simp: isl_def)
  then show "getUserPhoto encode sv upn =
        (concat (map (\<lambda>s. [AcquireToken ''https://graph.microsoft.com/.default'',
                             GraphPhotoSize upn s]) photoSizes)
           @ [AcquireToken ''https://graph.microsoft.com/.default'', GraphPhoto upn],
         Inr None)"
    using a t c by (simp add: getUserPhoto_def getUserPhoto_try_def getGraphClient_def graph_get_def)
next
  assume a: "initWithMiddleware sv = None
        \<and> token_refused sv ''https://graph.microsoft.com/.default''"
  then obtain e where c: "accessTokenProvider sv =
      ([AcquireToken ''https://graph.microsoft.com/.default''], Inl e)"
    using provider_refused by blast
  have t: "try_sizes (accessTokenProvider sv) sv upn photoSizes =
      (concat (map (\<lambda>s. [AcquireToken ''https://graph.microsoft.com/.default'']) photoSizes), None)"
    unfolding c by (rule try_sizes_no_token)
  show "getUserPhoto encode sv upn =
        (replicate 6 (AcquireToken ''https://graph.microsoft.com/.default''), Inr None)"
    using a t c
    by (simp add: getUserPhoto_def getUserPhoto_try_def getGraphClient_def graph_get_def
          photoSizes_def numeral_eq_Suc)
next
  assume "initWithMiddleware sv = Some e"
  then show "getUserPhoto encode sv upn = ([], Inr None)"
    by (simp add: getUserPhoto_def getUserPhoto_try_def getGraphClient_def)
qed

text \<open>
  Jane has a photo in the second size only: two requests, and the photo. Nobody
  else has a photo: six requests, and \<^verbatim>\<open>null\<close>. Without a Graph token: six
  attempts to get one, and \<^verbatim>\<open>null\<close>.
\<close>

theorem photo_lookup_witness:
  "initWithMiddleware ex_services = None
   \<and> acquireTokenByClientCredential ex_services ''https://graph.microsoft.com/.default'' =
       Inr (Obj [(''accessToken'', Str ''token'')])
   \<and> \<not> nullish (Obj [(''accessToken'', Str ''token'')])
   \<and> photoSizes = [''240x240''] @ ''120x120'' # [''96x96'', ''64x64'', ''48x48'']
   \<and> isl (graph_photo ex_services (GraphPhotoSize (Str ''jane@example.com'') ''240x240''))
   \<and> graph_photo ex_services (GraphPhotoSize (Str ''jane@example.com'') ''120x120'') = Inr (PBuffer [1, 2, 3])
   \<and> PBuffer [1, 2, 3] \<noteq> PFalsy \<and> to_buffer (PBuffer [1, 2, 3]) = Inr [1, 2, 3]
   \<and> getUserPhoto (\<lambda>b. ''photo'') ex_services (Str ''jane@example.com'') =
       ([AcquireToken ''https://graph.microsoft.com/.default'',
         GraphPhotoSize (Str ''jane@example.com'') ''240x240'',
         AcquireToken ''https://graph.microsoft.com/.default'',
         GraphPhotoSize (Str ''jane@example.com'') ''120x120''], Inr (Some ''photo''))
   \<and> (\<forall>c. isl (graph_photo (ex_services\<lparr>graph_photo := (\<lambda>c. Inl (Error [] ''Not found''))\<rparr>) c))
   \<and> getUserPhoto (\<lambda>b. ''photo'') (ex_services\<lparr>graph_photo := (\<lambda>c. Inl (Error [] ''Not found''))\<rparr>)
        (Str ''john@example.com'') =
       ([AcquireToken ''https://graph.microsoft.com/.default'',
         GraphPhotoSize (Str ''john@example.com'') ''240x240'',
         AcquireToken ''https://graph.microsoft.com/.default'',
         GraphPhotoSize (Str ''john@example.com'') ''120x120'',
         AcquireToken ''https://graph.microsoft.com/.default'',
         GraphPhotoSize (Str ''john@example.com'') ''96x96'',
         AcquireToken ''https://graph.microsoft.com/.default'',
         GraphPhotoSize (Str ''john@example.com'') ''64x64'',
         AcquireToken ''https://graph.microsoft.com/.default'',
         GraphPhotoSize (Str ''john@example.com'') ''48x48'',
         AcquireToken ''https://graph.microsoft.com/.default'',
         GraphPhoto (Str ''john@example.com'')], Inr None)
   \<and> token_refused
        (ex_services\<lparr>acquireTokenByClientCredential := (\<lambda>scope. Inl (Error ''invalid_client'' []))\<rparr>)
        ''https://graph.microsoft.com/.default''
   \<and> getUserPhoto (\<lambda>b. ''photo'')
        (ex_services\<lparr>acquireTokenByClientCredential := (\<lambda>scope. Inl (Error ''invalid_client'' []))\<rparr>)
        (Str ''jane@example.com'') =
       ([AcquireToken ''https://graph.microsoft.com/.default'',
         AcquireToken ''https://graph.microsoft.com/.default'',
         AcquireToken ''https://graph.microsoft.com/.default'',
         AcquireToken ''https://graph.microsoft.com/.default'',
         AcquireToken ''https://graph.microsoft.com/.default'',
         AcquireToken ''https://graph.microsoft.com/.default''], Inr None)"
proof -
  let ?none = "ex_services\<lparr>graph_photo := (\<lambda>c. Inl (Error [] ''Not found''))\<rparr>"
  let ?notoken = "ex_services\<lparr>acquireTokenByClientCredential := (\<lambda>scope. Inl (Error ''invalid_client'' []))\<rparr>"
  let ?tok = "Obj [(''accessToken'', Str ''token'')]"
  have h1: "initWithMiddleware ex_services = None
     \<and> acquireTokenByClientCredential ex_services ''https://graph.microsoft.com/.default'' = Inr ?tok
     \<and> \<not> nullish ?tok
     \<and> photoSizes = [''240x240''] @ ''120x120'' # [''96x96'', ''64x64'', ''48x48'']
     \<and> (\<forall>s \<in> set [''240x240'']. isl (graph_photo ex_services (GraphPhotoSize (Str ''jane@example.com'') s)))
     \<and> graph_photo ex_services (GraphPhotoSize (Str ''jane@example.com'') ''120x120'') = Inr (PBuffer [1, 2, 3])
     \<and> PBuffer [1, 2, 3] \<noteq> PFalsy \<and> to_buffer (PBuffer [1, 2, 3]) = Inr [1, 2, 3]"
    by (simp add: ex_services_def photoSizes_def to_buffer_def)
  have h2: "initWithMiddleware ?none = None
     \<and> acquireTokenByClientCredential ?none ''https://graph.microsoft.com/.default'' = Inr ?tok
     \<and> \<not> nullish ?tok \<and> (\<forall>c. isl (graph_photo ?none c))"
    by (simp add: ex_services_def)
  have h3: "initWithMiddleware ?notoken = None
     \<and> token_refused ?notoken ''https://graph.microsoft.com/.default''"
    by (simp add: ex_services_def token_refused_def)
  note t1 = photo_lookup[where sv = ex_services and upn = "Str ''jane@example.com''"
      and response = ?tok
      and pre = "[''240x240'']" and sz = "''120x120''" and post = "[''96x96'', ''64x64'', ''48x48'']"
      and p = "PBuffer [1, 2, 3]" and b = "[1, 2, 3]" and encode = "\<lambda>b. ''photo''",
      THEN conjunct2, THEN conjunct2, THEN conjunct1, rule_format, OF h1]
  note t2 = photo_lookup[where sv = ?none and upn = "Str ''john@example.com''"
      and response = ?tok and encode = "\<lambda>b. ''photo''",
      THEN conjunct2, THEN conjunct2, THEN conjunct2, THEN conjunct1, rule_format, OF h2]
  note t3 = photo_lookup[where sv = ?notoken and upn = "Str ''jane@example.com''"
      and encode = "\<lambda>b. ''photo''",
      THEN conjunct2, THEN conjunct2, THEN conjunct2, THEN conjunct2, THEN conjunct1,
      rule_format, OF h3]
  from h1 h2 h3 t1 t2 t3 show ?thesis by (simp add: photoSizes_def numeral_eq_Suc)
qed

section \<open>The pin code\<close>

text \<open>
  C10. The configured pin length is 4 when \<^verbatim>\<open>ISSUANCE_PIN_CODE_LENGTH\<close> is
  unset (or empty), is not a number, is negative or is greater than 6, and is the
  parsed number otherwise, so it lies between 0 and 6. For such a length \<open>L > 0\<close>
  and every double \<open>m / 2 ^ k\<close> below 1 that \<^verbatim>\<open>Math.random()\<close> returns, the
  pin of a created issuance request, computed in double arithmetic, is an integer
  from \<open>10 ^ (L - 1)\<close> to \<open>10 ^ L - 1\<close>, posted with the request, and stored and
  returned as its decimal string, which has \<open>L\<close> characters. For the length 0
  the posted request has no pin and the stored and returned pin is \<^verbatim>\<open>null\<close>.
\<close>

theorem pin_code:
  "pinCodeLength parseInt None = 4
   \<and> pinCodeLength parseInt (Some []) = 4
   \<and> (parseInt s = None \<longrightarrow> pinCodeLength parseInt (Some s) = 4)
   \<and> (parseInt s = Some n \<and> (n < 0 \<or> 6 < n) \<longrightarrow> pinCodeLength parseInt (Some s) = 4)
   \<and> (s \<noteq> [] \<and> parseInt s = Some n \<and> 0 \<le> n \<and> n \<le> 6 \<longrightarrow> pinCodeLength parseInt (Some s) = n)
   \<and> 0 \<le> pinCodeLength parseInt env \<and> pinCodeLength parseInt env \<le> 6
   \<and> (0 < L \<and> L \<le> 6 \<and> random sv = (m, k) \<and> m < 2 ^ 53 \<and> m < 2 ^ k
        \<and> createIssuanceRequest L sv store user_data = (store', calls, Inr res) \<longrightarrow>
       10 ^ nat (L - 1) \<le> pinCode L (m, k) \<and> pinCode L (m, k) \<le> 10 ^ nat L - 1
       \<and> length (toString (pinCode L (m, k))) = nat L
       \<and> result_pin res = Some (toString (pinCode L (m, k)))
       \<and> map_option pin (store' (requestId res)) = Some (Some (toString (pinCode L (m, k))))
       \<and> getprop (json (snd (issue_request_status store' (requestId res)))) ''pin''
            = Str (toString (pinCode L (m, k)))
       \<and> (\<exists>accessToken. calls =
             [AcquireToken ''3db474b9-6a0c-4840-96ac-1fceb342124f/.default'',
              PostIssuance accessToken (requestId res)
                (Some (toString (pinCode L (m, k)), L)) user_data]))
   \<and> (L = 0 \<and> createIssuanceRequest L sv store user_data = (store', calls, Inr res) \<longrightarrow>
       result_pin res = None
       \<and> map_option pin (store' (requestId res)) = Some None
       \<and> getprop (json (snd (issue_request_status store' (requestId res)))) ''pin'' = Null
       \<and> (\<exists>accessToken. calls =
             [AcquireToken ''3db474b9-6a0c-4840-96ac-1fceb342124f/.default'',
              PostIssuance accessToken (requestId res) None user_data]))"
proof (intro conjI impI)
  show "pinCodeLength parseInt None = 4" "pinCodeLength parseInt (Some []) = 4"
    by (simp_all add: pinCodeLength_def)
  show "parseInt s = None \<Longrightarrow> pinCodeLength parseInt (Some s) = 4"
    by (simp add: pinCodeLength_def)
  show "parseInt s = Some n \<and> (n < 0 \<or> 6 < n) \<Longrightarrow> pinCodeLength parseInt (Some s) = 4"
    by (auto simp: pinCodeLength_def)
  show "s \<noteq> [] \<and> parseInt s = Some n \<and> 0 \<le> n \<and> n \<le> 6 \<Longrightarrow> pinCodeLength parseInt (Some s) = n"
    by (auto simp: pinCodeLength_def)
  show "0 \<le> pinCodeLength parseInt env" "pinCodeLength parseInt env \<le> 6"
    by (auto simp: pinCodeLength_def split: option.splits)
next
  assume a: "0 < L \<and> L \<le> 6 \<and> random sv = (m, k) \<and> m < 2 ^ 53 \<and> m < 2 ^ k
        \<and> createIssuanceRequest L sv store user_data = (store', calls, Inr res)"
  then have L: "0 < L" and m1: "m < 2 ^ 53" and m2: "m < 2 ^ k" by simp_all
  show "10 ^ nat (L - 1) \<le> pinCode L (m, k)" by (rule pinCode_bounds(1)[OF L m1 m2])
  show "pinCode L (m, k) \<le> 10 ^ nat L - 1" by (rule pinCode_bounds(2)[OF L m1 m2])
  show "length (toString (pinCode L (m, k))) = nat L" by (rule toString_length[OF L m1 m2])
  have l: "fst (getAccessToken sv) = [AcquireToken ''3db474b9-6a0c-4840-96ac-1fceb342124f/.default'']"
    by (rule getAccessToken_log)
  show "result_pin res = Some (toString (pinCode L (m, k)))"
    using a by (auto simp: createIssuanceRequest_def issuance_pin_def Let_def
                     split: prod.splits sum.splits if_splits)
  show "map_option pin (store' (requestId res)) = Some (Some (toString (pinCode L (m, k))))"
    using a by (auto simp: createIssuanceRequest_def issuance_pin_def Let_def
                     split: prod.splits sum.splits if_splits)
  show "getprop (json (snd (issue_request_status store' (requestId res)))) ''pin''
            = Str (toString (pinCode L (m, k)))"
    using a by (auto simp: createIssuanceRequest_def issuance_pin_def issue_request_status_def Let_def
                     split: prod.splits sum.splits if_splits)
  show "\<exists>accessToken. calls =
             [AcquireToken ''3db474b9-6a0c-4840-96ac-1fceb342124f/.default'',
              PostIssuance accessToken (requestId res)
                (Some (toString (pinCode L (m, k)), L)) user_data]"
    using a l by (auto simp: createIssuanceRequest_def issuance_pin_def Let_def
                     split: prod.splits sum.splits if_splits)
next
  assume a: "L = 0 \<and> createIssuanceRequest L sv store user_data = (store', calls, Inr res)"
  have l: "fst (getAccessToken sv) = [AcquireToken ''3db474b9-6a0c-4840-96ac-1fceb342124f/.default'']"
    by (rule getAccessToken_log)
  show "result_pin res = None"
    using a by (auto simp: createIssuanceRequest_def issuance_pin_def Let_def
                     split: prod.splits sum.splits if_splits)
  show "map_option pin (store' (requestId res)) = Some None"
    using a by (auto simp: createIssuanceRequest_def issuance_pin_def Let_def
                     split: prod.splits sum.splits if_splits)
  show "getprop (json (snd (issue_request_status store' (requestId res)))) ''pin'' = Null"
    using a by (auto simp: createIssuanceRequest_def issuance_pin_def issue_request_status_def Let_def
                     split: prod.splits sum.splits if_splits)
  show "\<exists>accessToken. calls =
             [AcquireToken ''3db474b9-6a0c-4840-96ac-1fceb342124f/.default'',
              PostIssuance accessToken (requestId res) None user_data]"
    using a l by (auto simp: createIssuanceRequest_def issuance_pin_def Let_def
                     split: prod.splits sum.splits if_splits)
qed

text \<open>
  The settings \<open>abc\<close>, \<open>-1\<close> and \<open>7\<close> give the length 4 and \<open>0\<close> gives 0 (with
  a \<open>parseInt\<close> that reads these four strings). With the length 4 and the random
  number 1/2 the pin is 5500; with the length 0 there is none.
\<close>

theorem pin_code_witness:
  "pinCodeLength (\<lambda>s. if s = ''-1'' then Some (- 1) else if s = ''7'' then Some 7
                       else if s = ''0'' then Some 0 else None) (Some ''abc'') = 4
   \<and> pinCodeLength (\<lambda>s. if s = ''-1'' then Some (- 1) else if s = ''7'' then Some 7
                       else if s = ''0'' then Some 0 else None) (Some ''-1'') = 4
   \<and> pinCodeLength (\<lambda>s. if s = ''-1'' then Some (- 1) else if s = ''7'' then Some 7
                       else if s = ''0'' then Some 0 else None) (Some ''7'') = 4
   \<and> pinCodeLength (\<lambda>s. if s = ''-1'' then Some (- 1) else if s = ''7'' then Some 7
                       else if s = ''0'' then Some 0 else None) (Some ''0'') = 0
   \<and> (0::int) < 4 \<and> (4::int) \<le> 6 \<and> random ex_services = (4503599627370496, 53)
   \<and> (4503599627370496::nat) < 2 ^ 53 \<and> (4503599627370496::nat) < 2 ^ 53
   \<and> createIssuanceRequest 4 ex_services Map.empty ex_profile =
       ([''r1'' \<mapsto> ex_issuance],
        [AcquireToken ''3db474b9-6a0c-4840-96ac-1fceb342124f/.default'',
         PostIssuance (Str ''token'') ''r1'' (Some (''5500'', 4)) ex_profile],
        Inr \<lparr>requestId = ''r1'', url = Str ''openid-vc://request'', expiry = Num 1700000000,
             qrCode = Str ''data:image/png;base64,AAAA'', result_pin = Some ''5500''\<rparr>)
   \<and> 1000 \<le> pinCode 4 (4503599627370496, 53) \<and> pinCode 4 (4503599627370496, 53) \<le> 9999
   \<and> length (toString (pinCode 4 (4503599627370496, 53))) = 4
   \<and> toString (pinCode 4 (4503599627370496, 53)) = ''5500''
   \<and> createIssuanceRequest 0 ex_services Map.empty ex_profile =
       ([''r1'' \<mapsto> ex_issuance\<lparr>pin := None\<rparr>],
        [AcquireToken ''3db474b9-6a0c-4840-96ac-1fceb342124f/.default'',
         PostIssuance (Str ''token'') ''r1'' None ex_profile],
        Inr \<lparr>requestId = ''r1'', url = Str ''openid-vc://request'', expiry = Num 1700000000,
             qrCode = Str ''data:image/png;base64,AAAA'', result_pin = None\<rparr>)
   \<and> getprop (json (snd (issue_request_status [''r1'' \<mapsto> ex_issuance\<lparr>pin := None\<rparr>] ''r1''))) ''pin'' = Null"
proof -
  let ?parse = "\<lambda>s. if s = ''-1'' then Some (- 1) else if s = ''7'' then Some (7::int)
                       else if s = ''0'' then Some 0 else None"
  let ?res4 = "\<lparr>requestId = ''r1'', url = Str ''openid-vc://request'', expiry = Num 1700000000,
             qrCode = Str ''data:image/png;base64,AAAA'', result_pin = Some ''5500''\<rparr>"
  let ?res0 = "\<lparr>requestId = ''r1'', url = Str ''openid-vc://request'', expiry = Num 1700000000,
             qrCode = Str ''data:image/png;base64,AAAA'', result_pin = None\<rparr>"
  have r: "random ex_services = (4503599627370496, 53)" by (simp add: ex_services_def)
  have h4: "createIssuanceRequest 4 ex_services Map.empty ex_profile =
       ([''r1'' \<mapsto> ex_issuance],
        [AcquireToken ''3db474b9-6a0c-4840-96ac-1fceb342124f/.default'',
         PostIssuance (Str ''token'') ''r1'' (Some (''5500'', 4)) ex_profile],
        Inr ?res4)"
    by (simp add: createIssuanceRequest_def getAccessToken_def issuance_pin_def ex_pinCode Let_def
          ex_services_def ex_issuance_def ex_reply_def)
  have h0: "createIssuanceRequest 0 ex_services Map.empty ex_profile =
       ([''r1'' \<mapsto> ex_issuance\<lparr>pin := None\<rparr>],
        [AcquireToken ''3db474b9-6a0c-4840-96ac-1fceb342124f/.default'',
         PostIssuance (Str ''token'') ''r1'' None ex_profile],
        Inr ?res0)"
    by (simp add: createIssuanceRequest_def getAccessToken_def issuance_pin_def Let_def
          ex_services_def ex_issuance_def ex_reply_def)
  have a4: "(0::int) < 4 \<and> (4::int) \<le> 6 \<and> random ex_services = (4503599627370496, 53)
        \<and> (4503599627370496::nat) < 2 ^ 53 \<and> (4503599627370496::nat) < 2 ^ 53
        \<and> createIssuanceRequest 4 ex_services Map.empty ex_profile =
       ([''r1'' \<mapsto> ex_issuance],
        [AcquireToken ''3db474b9-6a0c-4840-96ac-1fceb342124f/.default'',
         PostIssuance (Str ''token'') ''r1'' (Some (''5500'', 4)) ex_profile],
        Inr ?res4)"
    using h4 r by simp
  have a0: "(0::int) = 0 \<and> createIssuanceRequest 0 ex_services Map.empty ex_profile =
       ([''r1'' \<mapsto> ex_issuance\<lparr>pin := None\<rparr>],
        [AcquireToken ''3db474b9-6a0c-4840-96ac-1fceb342124f/.default'',
         PostIssuance (Str ''token'') ''r1'' None ex_profile],
        Inr ?res0)"
    using h0 by simp
  note p = pin_code[where parseInt = ?parse and L = 4 and sv = ex_services and store = Map.empty
      and m = 4503599627370496 and k = 53
      and user_data = ex_profile and store' = "[''r1'' \<mapsto> ex_issuance]" and res = ?res4
      and calls = "[AcquireToken ''3db474b9-6a0c-4840-96ac-1fceb342124f/.default'',
         PostIssuance (Str ''token'') ''r1'' (Some (''5500'', 4)) ex_profile]"]
  note q = pin_code[where parseInt = ?parse and L = 0 and sv = ex_services and store = Map.empty
      and user_data = ex_profile and store' = "[''r1'' \<mapsto> ex_issuance\<lparr>pin := None\<rparr>]" and res = ?res0
      and calls = "[AcquireToken ''3db474b9-6a0c-4840-96ac-1fceb342124f/.default'',
         PostIssuance (Str ''token'') ''r1'' None ex_profile]"]
  have s1: "pinCodeLength ?parse (Some ''abc'') = 4"
    using p[where s = "''abc''"] by simp
  have s2: "pinCodeLength ?parse (Some ''-1'') = 4"
    using p[where s = "''-1''" and n = "- 1"] by simp
  have s3: "pinCodeLength ?parse (Some ''7'') = 4"
    using p[where s = "''7''" and n = 7] by simp
  have s4: "pinCodeLength ?parse (Some ''0'') = 0"
    using p[where s = "''0''" and n = 0] by simp
  have b: "1000 \<le> pinCode 4 (4503599627370496, 53) \<and> pinCode 4 (4503599627370496, 53) \<le> 9999
      \<and> length (toString (pinCode 4 (4503599627370496, 53))) = 4"
    using p a4 by simp
  have z: "getprop (json (snd (issue_request_status [''r1'' \<mapsto> ex_issuance\<lparr>pin := None\<rparr>] ''r1''))) ''pin'' = Null"
    using q a0 by simp
  from s1 s2 s3 s4 a4 h0 b z ex_pinCode show ?thesis by simp
qed

end
